theory Spec2Isabelle
  imports Main "HOL-Library.Char_ord" "HOL-Library.AList"
begin

section \<open>Bytes and characters\<close>

text \<open>
  Go strings and byte slices are sequences of bytes; an Isabelle \<open>char\<close> is one byte.
\<close>

type_synonym bytes = string

definition byte :: "char \<Rightarrow> nat" where
  "byte c = of_char c"

definition isSpace :: "char \<Rightarrow> bool" where
  "isSpace c = (c = CHR '' '' \<or> c = CHR 0x09 \<or> c = CHR 0x0D \<or> c = CHR 0x0A)"

definition isDigit :: "char \<Rightarrow> bool" where
  "isDigit c = (48 \<le> byte c \<and> byte c \<le> 57)"

definition isDigit19 :: "char \<Rightarrow> bool" where
  "isDigit19 c = (49 \<le> byte c \<and> byte c \<le> 57)"

definition isHex :: "char \<Rightarrow> bool" where
  "isHex c = (isDigit c \<or> (97 \<le> byte c \<and> byte c \<le> 102) \<or> (65 \<le> byte c \<and> byte c \<le> 70))"

section \<open>The errors of the pipeline\<close>

text \<open>
  \<open>EOF\<close>, \<open>ErrUnexpectedEOF\<close>, \<open>SyntaxError\<close> and \<open>UnmarshalTypeError\<close> are the errors
  that \<open>encoding/json\<close> returns from \<open>Decode\<close>; \<open>PhasePanic\<close> stands for the decoder's
  internal phase panic. \<open>OtherError\<close> is any error of the environment (body I/O, URL
  parsing, transport), identified by its text.
\<close>

datatype error = EOF | ErrUnexpectedEOF | SyntaxError | UnmarshalTypeError | PhasePanic
  | OtherError string

section \<open>encoding/json: the scanner\<close>

text \<open>
  The scanner of \<open>encoding/json\<close> is a state machine that is fed one byte at a time.
  Its field \<open>step\<close> is the current state function, \<open>parseState\<close> the stack of open
  objects and arrays (here with the top of the stack at the head of the list).
\<close>

datatype step = stateBeginValue | stateBeginValueOrEmpty | stateBeginStringOrEmpty
  | stateBeginString | stateEndValue | stateEndTop | stateInString | stateInStringEsc
  | stateInStringEscU | stateInStringEscU1 | stateInStringEscU12 | stateInStringEscU123
  | stateNeg | state1 | state0 | stateDot | stateDot0 | stateE | stateESign | stateE0
  | stateT | stateTr | stateTru | stateF | stateFa | stateFal | stateFals
  | stateN | stateNu | stateNul | stateError

datatype parse_state = parseObjectKey | parseObjectValue | parseArrayValue

datatype opcode = scanContinue | scanBeginLiteral | scanBeginObject | scanObjectKey
  | scanObjectValue | scanEndObject | scanBeginArray | scanArrayValue | scanEndArray
  | scanSkipSpace | scanEnd | scanError

record scanner =
  step :: step
  parseState :: "parse_state list"

definition maxNestingDepth :: nat where
  "maxNestingDepth = 10000"

definition scanner_reset :: scanner where
  "scanner_reset = \<lparr>step = stateBeginValue, parseState = []\<rparr>"

definition scan_error :: "scanner \<Rightarrow> opcode \<times> scanner" where
  "scan_error s = (scanError, s\<lparr>step := stateError\<rparr>)"

definition goto :: "scanner \<Rightarrow> step \<Rightarrow> opcode \<Rightarrow> opcode \<times> scanner" where
  "goto s st op = (op, s\<lparr>step := st\<rparr>)"

definition pushParseState :: "scanner \<Rightarrow> parse_state \<Rightarrow> opcode \<Rightarrow> opcode \<times> scanner" where
  "pushParseState s newParseState successState =
     (let s' = s\<lparr>parseState := newParseState # parseState s\<rparr>
      in if length (parseState s') \<le> maxNestingDepth then (successState, s')
         else scan_error s')"

definition popParseState :: "scanner \<Rightarrow> scanner" where
  "popParseState s =
     (let rest = tl (parseState s)
      in s\<lparr>parseState := rest, step := (if rest = [] then stateEndTop else stateEndValue)\<rparr>)"

definition stateEndTop_f :: "scanner \<Rightarrow> char \<Rightarrow> opcode \<times> scanner" where
  "stateEndTop_f s c = (if \<not> isSpace c then (scanEnd, s\<lparr>step := stateError\<rparr>) else (scanEnd, s))"

definition stateEndValue_f :: "scanner \<Rightarrow> char \<Rightarrow> opcode \<times> scanner" where
  "stateEndValue_f s c =
     (case parseState s of
        [] \<Rightarrow> stateEndTop_f (s\<lparr>step := stateEndTop\<rparr>) c
      | ps # rest \<Rightarrow>
          if isSpace c then goto s stateEndValue scanSkipSpace
          else (case ps of
             parseObjectKey \<Rightarrow>
               if c = CHR '':'' then
                 (scanObjectKey, s\<lparr>parseState := parseObjectValue # rest, step := stateBeginValue\<rparr>)
               else scan_error s
           | parseObjectValue \<Rightarrow>
               if c = CHR '','' then
                 (scanObjectValue, s\<lparr>parseState := parseObjectKey # rest, step := stateBeginString\<rparr>)
               else if c = CHR ''}'' then (scanEndObject, popParseState s)
               else scan_error s
           | parseArrayValue \<Rightarrow>
               if c = CHR '','' then goto s stateBeginValue scanArrayValue
               else if c = CHR '']'' then (scanEndArray, popParseState s)
               else scan_error s))"

definition stateBeginValue_f :: "scanner \<Rightarrow> char \<Rightarrow> opcode \<times> scanner" where
  "stateBeginValue_f s c =
     (if isSpace c then (scanSkipSpace, s)
      else if c = CHR ''{'' then
        pushParseState (s\<lparr>step := stateBeginStringOrEmpty\<rparr>) parseObjectKey scanBeginObject
      else if c = CHR ''['' then
        pushParseState (s\<lparr>step := stateBeginValueOrEmpty\<rparr>) parseArrayValue scanBeginArray
      else if c = CHR 0x22 then goto s stateInString scanBeginLiteral
      else if c = CHR ''-'' then goto s stateNeg scanBeginLiteral
      else if c = CHR ''0'' then goto s state0 scanBeginLiteral
      else if c = CHR ''t'' then goto s stateT scanBeginLiteral
      else if c = CHR ''f'' then goto s stateF scanBeginLiteral
      else if c = CHR ''n'' then goto s stateN scanBeginLiteral
      else if isDigit19 c then goto s state1 scanBeginLiteral
      else scan_error s)"

definition stateBeginString_f :: "scanner \<Rightarrow> char \<Rightarrow> opcode \<times> scanner" where
  "stateBeginString_f s c =
     (if isSpace c then (scanSkipSpace, s)
      else if c = CHR 0x22 then goto s stateInString scanBeginLiteral
      else scan_error s)"

definition state0_f :: "scanner \<Rightarrow> char \<Rightarrow> opcode \<times> scanner" where
  "state0_f s c =
     (if c = CHR ''.'' then goto s stateDot scanContinue
      else if c = CHR ''e'' \<or> c = CHR ''E'' then goto s stateE scanContinue
      else stateEndValue_f s c)"

definition stateESign_f :: "scanner \<Rightarrow> char \<Rightarrow> opcode \<times> scanner" where
  "stateESign_f s c = (if isDigit c then goto s stateE0 scanContinue else scan_error s)"

definition expect :: "scanner \<Rightarrow> char \<Rightarrow> char \<Rightarrow> step \<Rightarrow> opcode \<times> scanner" where
  "expect s c want next = (if c = want then goto s next scanContinue else scan_error s)"

text \<open>\<open>scan_step s c\<close> is the call \<open>s.step(s, c)\<close>.\<close>

definition scan_step :: "scanner \<Rightarrow> char \<Rightarrow> opcode \<times> scanner" where
  "scan_step s c =
     (case step s of
        stateBeginValue \<Rightarrow> stateBeginValue_f s c
      | stateBeginValueOrEmpty \<Rightarrow>
          if isSpace c then (scanSkipSpace, s)
          else if c = CHR '']'' then stateEndValue_f s c
          else stateBeginValue_f s c
      | stateBeginStringOrEmpty \<Rightarrow>
          if isSpace c then (scanSkipSpace, s)
          else if c = CHR ''}'' then
            stateEndValue_f (s\<lparr>parseState := parseObjectValue # tl (parseState s)\<rparr>) c
          else stateBeginString_f s c
      | stateBeginString \<Rightarrow> stateBeginString_f s c
      | stateEndValue \<Rightarrow> stateEndValue_f s c
      | stateEndTop \<Rightarrow> stateEndTop_f s c
      | stateInString \<Rightarrow>
          if c = CHR 0x22 then goto s stateEndValue scanContinue
          else if c = CHR 0x5C then goto s stateInStringEsc scanContinue
          else if byte c < 32 then scan_error s
          else (scanContinue, s)
      | stateInStringEsc \<Rightarrow>
          if c \<in> set [CHR ''b'', CHR ''f'', CHR ''n'', CHR ''r'', CHR ''t'', CHR 0x5C, CHR ''/'', CHR 0x22]
          then goto s stateInString scanContinue
          else if c = CHR ''u'' then goto s stateInStringEscU scanContinue
          else scan_error s
      | stateInStringEscU \<Rightarrow>
          if isHex c then goto s stateInStringEscU1 scanContinue else scan_error s
      | stateInStringEscU1 \<Rightarrow>
          if isHex c then goto s stateInStringEscU12 scanContinue else scan_error s
      | stateInStringEscU12 \<Rightarrow>
          if isHex c then goto s stateInStringEscU123 scanContinue else scan_error s
      | stateInStringEscU123 \<Rightarrow>
          if isHex c then goto s stateInString scanContinue else scan_error s
      | stateNeg \<Rightarrow>
          if c = CHR ''0'' then goto s state0 scanContinue
          else if isDigit19 c then goto s state1 scanContinue
          else scan_error s
      | state1 \<Rightarrow> if isDigit c then goto s state1 scanContinue else state0_f s c
      | state0 \<Rightarrow> state0_f s c
      | stateDot \<Rightarrow> if isDigit c then goto s stateDot0 scanContinue else scan_error s
      | stateDot0 \<Rightarrow>
          if isDigit c then (scanContinue, s)
          else if c = CHR ''e'' \<or> c = CHR ''E'' then goto s stateE scanContinue
          else stateEndValue_f s c
      | stateE \<Rightarrow>
          if c = CHR ''+'' \<or> c = CHR ''-'' then goto s stateESign scanContinue
          else stateESign_f s c
      | stateESign \<Rightarrow> stateESign_f s c
      | stateE0 \<Rightarrow> if isDigit c then (scanContinue, s) else stateEndValue_f s c
      | stateT \<Rightarrow> expect s c (CHR ''r'') stateTr
      | stateTr \<Rightarrow> expect s c (CHR ''u'') stateTru
      | stateTru \<Rightarrow> expect s c (CHR ''e'') stateEndValue
      | stateF \<Rightarrow> expect s c (CHR ''a'') stateFa
      | stateFa \<Rightarrow> expect s c (CHR ''l'') stateFal
      | stateFal \<Rightarrow> expect s c (CHR ''s'') stateFals
      | stateFals \<Rightarrow> expect s c (CHR ''e'') stateEndValue
      | stateN \<Rightarrow> expect s c (CHR ''u'') stateNu
      | stateNu \<Rightarrow> expect s c (CHR ''l'') stateNul
      | stateNul \<Rightarrow> expect s c (CHR ''l'') stateEndValue
      | stateError \<Rightarrow> (scanError, s))"

section \<open>encoding/json: string literals\<close>

text \<open>
  \<open>utf8_len s\<close> is the size that \<open>utf8.DecodeRune\<close> reports for a well-formed UTF-8
  sequence at the start of \<open>s\<close>, and 0 where \<open>DecodeRune\<close> reports \<open>RuneError\<close> with
  size 1 (or the slice is empty).
\<close>

definition isCont :: "char \<Rightarrow> bool" where
  "isCont c = (128 \<le> byte c \<and> byte c \<le> 191)"

fun utf8_len :: "bytes \<Rightarrow> nat" where
  "utf8_len [] = 0"
| "utf8_len (c # cs) =
     (let n = byte c in
      if n < 128 then 1
      else if 194 \<le> n \<and> n \<le> 223 then
        (case cs of c1 # _ \<Rightarrow> if isCont c1 then 2 else 0 | _ \<Rightarrow> 0)
      else if 224 \<le> n \<and> n \<le> 239 then
        (case cs of c1 # c2 # _ \<Rightarrow>
           if (if n = 224 then 160 else 128) \<le> byte c1
              \<and> byte c1 \<le> (if n = 237 then 159 else 191) \<and> isCont c2
           then 3 else 0
         | _ \<Rightarrow> 0)
      else if 240 \<le> n \<and> n \<le> 244 then
        (case cs of c1 # c2 # c3 # _ \<Rightarrow>
           if (if n = 240 then 144 else 128) \<le> byte c1
              \<and> byte c1 \<le> (if n = 244 then 143 else 191) \<and> isCont c2 \<and> isCont c3
           then 4 else 0
         | _ \<Rightarrow> 0)
      else 0)"

definition RuneError :: bytes where
  "RuneError = [CHR 0xEF, CHR 0xBF, CHR 0xBD]"

text \<open>\<open>utf8.EncodeRune\<close>: the UTF-8 encoding of a code point.\<close>

definition EncodeRune :: "nat \<Rightarrow> bytes" where
  "EncodeRune r =
     (if r < 128 then [char_of r]
      else if r < 2048 then [char_of (192 + r div 64), char_of (128 + r mod 64)]
      else if (55296 \<le> r \<and> r < 57344) \<or> 1114111 < r then RuneError
      else if r < 65536 then
        [char_of (224 + r div 4096), char_of (128 + (r div 64) mod 64), char_of (128 + r mod 64)]
      else
        [char_of (240 + r div 262144), char_of (128 + (r div 4096) mod 64),
         char_of (128 + (r div 64) mod 64), char_of (128 + r mod 64)])"

definition hexval :: "char \<Rightarrow> nat option" where
  "hexval c =
     (let n = byte c in
      if 48 \<le> n \<and> n \<le> 57 then Some (n - 48)
      else if 97 \<le> n \<and> n \<le> 102 then Some (n - 87)
      else if 65 \<le> n \<and> n \<le> 70 then Some (n - 55)
      else None)"

text \<open>\<open>getu4 s\<close> reads \<open>\uXXXX\<close> at the start of \<open>s\<close>; \<open>None\<close> is Go's \<open>-1\<close>.\<close>

fun getu4 :: "bytes \<Rightarrow> nat option" where
  "getu4 (b # u # h1 # h2 # h3 # h4 # _) =
     (if b \<noteq> CHR 0x5C \<or> u \<noteq> CHR ''u'' then None
      else (case (hexval h1, hexval h2, hexval h3, hexval h4) of
              (Some a, Some b, Some c, Some d) \<Rightarrow> Some (((a * 16 + b) * 16 + c) * 16 + d)
            | _ \<Rightarrow> None))"
| "getu4 _ = None"

definition IsSurrogate :: "nat \<Rightarrow> bool" where
  "IsSurrogate r = (55296 \<le> r \<and> r < 57344)"

text \<open>\<open>utf16.DecodeRune\<close>; \<open>None\<close> is the replacement character U+FFFD.\<close>

definition utf16_DecodeRune :: "nat \<Rightarrow> nat option \<Rightarrow> nat option" where
  "utf16_DecodeRune r1 r2 =
     (case r2 of
        None \<Rightarrow> None
      | Some r2' \<Rightarrow>
          if 55296 \<le> r1 \<and> r1 < 56320 \<and> 56320 \<le> r2' \<and> r2' < 57344
          then Some ((r1 - 55296) * 1024 + (r2' - 56320) + 65536)
          else None)"

text \<open>
  \<open>unquote k s\<close> is the loop of \<open>unquoteBytes\<close> over the bytes between the quotes of
  a string literal: \<open>k\<close> counts the bytes of a well-formed multi-byte sequence that are
  still to be copied (decoding such a sequence and encoding it again gives the same
  bytes); a byte that starts no well-formed sequence becomes U+FFFD.
\<close>

function unquote :: "nat \<Rightarrow> bytes \<Rightarrow> bytes option" where
  "unquote k [] = Some []"
| "unquote (Suc k) (c # cs) = map_option ((#) c) (unquote k cs)"
| "unquote 0 (c # cs) =
     (if c = CHR 0x5C then
        (case cs of
           [] \<Rightarrow> None
         | e # r \<Rightarrow>
             if e = CHR 0x22 \<or> e = CHR 0x5C \<or> e = CHR ''/'' \<or> e = CHR 0x27
               then map_option ((#) e) (unquote 0 r)
             else if e = CHR ''b'' then map_option ((#) (CHR 0x08)) (unquote 0 r)
             else if e = CHR ''f'' then map_option ((#) (CHR 0x0C)) (unquote 0 r)
             else if e = CHR ''n'' then map_option ((#) (CHR 0x0A)) (unquote 0 r)
             else if e = CHR ''r'' then map_option ((#) (CHR 0x0D)) (unquote 0 r)
             else if e = CHR ''t'' then map_option ((#) (CHR 0x09)) (unquote 0 r)
             else if e = CHR ''u'' then
               (case getu4 (c # cs) of
                  None \<Rightarrow> None
                | Some rr \<Rightarrow>
                    if IsSurrogate rr then
                      (case utf16_DecodeRune rr (getu4 (drop 5 cs)) of
                         Some dec \<Rightarrow> map_option ((@) (EncodeRune dec)) (unquote 0 (drop 11 cs))
                       | None \<Rightarrow> map_option ((@) RuneError) (unquote 0 (drop 5 cs)))
                    else map_option ((@) (EncodeRune rr)) (unquote 0 (drop 5 cs)))
             else None)
      else if c = CHR 0x22 \<or> byte c < 32 then None
      else if byte c < 128 then map_option ((#) c) (unquote 0 cs)
      else (let n = utf8_len (c # cs) in
            if n = 0 then map_option ((@) RuneError) (unquote 0 cs)
            else map_option ((#) c) (unquote (n - 1) cs)))"
  by pat_completeness auto
termination
  by (relation "measure (\<lambda>(k, s). length s)") auto

section \<open>encoding/json: decoding a value\<close>

datatype json = JNull | JBool bool | JNumber bytes | JString bytes
  | JArray "json list" | JObject "(bytes \<times> json) list"

text \<open>
  The decoder reads a value as the scanner's opcodes delimit it: a literal is the run of
  bytes from \<open>scanBeginLiteral\<close> up to the first opcode that is not \<open>scanContinue\<close>;
  objects and arrays are built on a stack of open containers. An open object holds
  its members so far and the key that waits for its value.
\<close>

datatype frame = FObject "(bytes \<times> json) list" "bytes option" | FArray "json list"

record decodeState =
  lit :: "bytes option"
  stack :: "frame list"
  result :: "json option"

definition decodeState_init :: decodeState where
  "decodeState_init = \<lparr>lit = None, stack = [], result = None\<rparr>"

definition literal_value :: "bytes \<Rightarrow> json option" where
  "literal_value item =
     (case item of
        [] \<Rightarrow> None
      | c # cs \<Rightarrow>
          if c = CHR 0x22 then
            (if cs = [] \<or> last cs \<noteq> CHR 0x22 then None
             else map_option JString (unquote 0 (butlast cs)))
          else if c = CHR ''n'' then Some JNull
          else if c = CHR ''t'' then Some (JBool True)
          else if c = CHR ''f'' then Some (JBool False)
          else Some (JNumber item))"

definition attach :: "json \<Rightarrow> decodeState \<Rightarrow> decodeState option" where
  "attach v d =
     (case stack d of
        [] \<Rightarrow> Some (d\<lparr>result := Some v\<rparr>)
      | FObject ms None # fs \<Rightarrow>
          (case v of JString k \<Rightarrow> Some (d\<lparr>stack := FObject ms (Some k) # fs\<rparr>) | _ \<Rightarrow> None)
      | FObject ms (Some k) # fs \<Rightarrow> Some (d\<lparr>stack := FObject (ms @ [(k, v)]) None # fs\<rparr>)
      | FArray vs # fs \<Rightarrow> Some (d\<lparr>stack := FArray (vs @ [v]) # fs\<rparr>))"

definition flush :: "decodeState \<Rightarrow> decodeState option" where
  "flush d =
     (case lit d of
        None \<Rightarrow> Some d
      | Some item \<Rightarrow>
          (case literal_value item of None \<Rightarrow> None | Some v \<Rightarrow> attach v (d\<lparr>lit := None\<rparr>)))"

definition close_container :: "decodeState \<Rightarrow> decodeState option" where
  "close_container d =
     (case stack d of
        FObject ms None # fs \<Rightarrow> attach (JObject ms) (d\<lparr>stack := fs\<rparr>)
      | FArray vs # fs \<Rightarrow> attach (JArray vs) (d\<lparr>stack := fs\<rparr>)
      | _ \<Rightarrow> None)"

definition build :: "opcode \<Rightarrow> char \<Rightarrow> decodeState \<Rightarrow> decodeState option" where
  "build op c d =
     (case op of
        scanContinue \<Rightarrow>
          Some (case lit d of None \<Rightarrow> d | Some item \<Rightarrow> d\<lparr>lit := Some (item @ [c])\<rparr>)
      | scanBeginLiteral \<Rightarrow> Some (d\<lparr>lit := Some [c]\<rparr>)
      | scanBeginObject \<Rightarrow> Some (d\<lparr>stack := FObject [] None # stack d\<rparr>)
      | scanBeginArray \<Rightarrow> Some (d\<lparr>stack := FArray [] # stack d\<rparr>)
      | scanEndObject \<Rightarrow> Option.bind (flush d) close_container
      | scanEndArray \<Rightarrow> Option.bind (flush d) close_container
      | scanError \<Rightarrow> Some d
      | _ \<Rightarrow> flush d)"

definition finish :: "decodeState \<Rightarrow> bytes \<Rightarrow> error + json \<times> bytes" where
  "finish d rest =
     (case Option.bind (flush d) result of
        None \<Rightarrow> Inl PhasePanic
      | Some v \<Rightarrow> Inr (v, rest))"

definition nonSpace :: "bytes \<Rightarrow> bool" where
  "nonSpace b = (\<exists>c \<in> set b. \<not> isSpace c)"

text \<open>
  \<open>readValue\<close> feeds the buffered input to the scanner until one value is complete. A
  value that is an object or an array is complete at its closing bracket; a string,
  number or literal at top level is complete at the first byte after it, which is left
  in the buffer, or at the end of the input. The bytes after the value are returned
  unread.
\<close>

fun readValue :: "bytes \<Rightarrow> scanner \<Rightarrow> decodeState \<Rightarrow> bytes \<Rightarrow> error + json \<times> bytes" where
  "readValue buf s d [] =
     (if fst (scan_step s (CHR '' '')) = scanEnd then finish d []
      else if nonSpace buf then Inl ErrUnexpectedEOF
      else Inl EOF)"
| "readValue buf s d (c # cs) =
     (case scan_step s c of (op, s') \<Rightarrow>
        if op = scanError then Inl SyntaxError
        else if op = scanEnd then finish d (c # cs)
        else (case build op c d of
                None \<Rightarrow> Inl PhasePanic
              | Some d' \<Rightarrow>
                  if op = scanEndObject \<or> op = scanEndArray then
                    (case stateEndValue_f s' (CHR '' '') of (op', s'') \<Rightarrow>
                       if op' = scanEnd then finish d' cs else readValue buf s'' d' cs)
                  else readValue buf s' d' cs))"

section \<open>The payload types\<close>

record DeviceLinkOperation =
  HardwareId :: bytes
  Product :: bytes

record CreateThingRequest =
  DeviceLinkOperation :: DeviceLinkOperation

record CreateSimulatedDeviceRequest =
  HardwareId :: bytes
  Product :: bytes
  SimulatorType :: bytes

definition ProductTracker :: bytes where
  "ProductTracker = ''TRACKER''"

definition SimulatorTypeManual :: bytes where
  "SimulatorTypeManual = ''MANUAL''"

text \<open>The zero value \<open>&CreateThingRequest{}\<close>.\<close>

definition CreateThingRequest_zero :: CreateThingRequest where
  "CreateThingRequest_zero =
     \<lparr>DeviceLinkOperation = \<lparr>DeviceLinkOperation.HardwareId = [], Product = []\<rparr>\<rparr>"

section \<open>encoding/json: storing a value into the payload struct\<close>

text \<open>
  A key of a JSON object selects the struct field whose JSON name equals it exactly
  or, failing that, equals it under \<open>foldName\<close>. \<open>foldName\<close> maps the ASCII letters to
  upper case and every other rune to the least rune of its case-folding orbit; the only
  runes outside ASCII with an ASCII letter in their orbit are the Kelvin sign U+212A
  (to K) and the long s U+017F (to S). The other runes outside ASCII fold among
  themselves and are left as they are here: the field names are ASCII, so whether
  a folded key equals a folded field name is unchanged.
\<close>

definition toUpperASCII :: "char \<Rightarrow> char" where
  "toUpperASCII c = (if 97 \<le> byte c \<and> byte c \<le> 122 then char_of (byte c - 32) else c)"

function foldName :: "bytes \<Rightarrow> bytes" where
  "foldName [] = []"
| "foldName (c # cs) =
     (if c = CHR 0xE2 \<and> take 2 cs = [CHR 0x84, CHR 0xAA] then CHR ''K'' # foldName (drop 2 cs)
      else if c = CHR 0xC5 \<and> take 1 cs = [CHR 0xBF] then CHR ''S'' # foldName (drop 1 cs)
      else toUpperASCII c # foldName cs)"
  by pat_completeness auto
termination
  by (relation "measure length") auto

definition lookup_field :: "bytes list \<Rightarrow> bytes \<Rightarrow> bytes option" where
  "lookup_field names key =
     (if key \<in> set names then Some key
      else List.find (\<lambda>n. foldName n = foldName key) names)"

text \<open>
  Storing into a field of kind string: a JSON string sets it, \<open>null\<close> leaves it as it
  is, any other value is an \<open>UnmarshalTypeError\<close> (the flag is False) and is skipped.
  Storing into a struct: an object is stored member by member, \<open>null\<close> changes nothing,
  any other value is an \<open>UnmarshalTypeError\<close>. Decoding goes on after such an error,
  and the error is returned at the end.
\<close>

definition store_string :: "json \<Rightarrow> bytes \<Rightarrow> bool \<times> bytes" where
  "store_string v old =
     (case v of JString s \<Rightarrow> (True, s) | JNull \<Rightarrow> (True, old) | _ \<Rightarrow> (False, old))"

fun object_DeviceLinkOperation ::
  "(bytes \<times> json) list \<Rightarrow> bool \<times> DeviceLinkOperation \<Rightarrow> bool \<times> DeviceLinkOperation" where
  "object_DeviceLinkOperation [] acc = acc"
| "object_DeviceLinkOperation ((k, v) # ms) (ok, d) =
     (case lookup_field [''identifier'', ''product''] k of
        None \<Rightarrow> object_DeviceLinkOperation ms (ok, d)
      | Some n \<Rightarrow>
          if n = ''identifier'' then
            (case store_string v (DeviceLinkOperation.HardwareId d) of
               (ok', s) \<Rightarrow>
                 object_DeviceLinkOperation ms (ok \<and> ok', d\<lparr>DeviceLinkOperation.HardwareId := s\<rparr>))
          else
            (case store_string v (DeviceLinkOperation.Product d) of
               (ok', s) \<Rightarrow>
                 object_DeviceLinkOperation ms (ok \<and> ok', d\<lparr>DeviceLinkOperation.Product := s\<rparr>)))"

definition value_DeviceLinkOperation ::
  "json \<Rightarrow> bool \<times> DeviceLinkOperation \<Rightarrow> bool \<times> DeviceLinkOperation" where
  "value_DeviceLinkOperation v acc =
     (case v of
        JObject ms \<Rightarrow> object_DeviceLinkOperation ms acc
      | JNull \<Rightarrow> acc
      | _ \<Rightarrow> (False, snd acc))"

fun object_CreateThingRequest ::
  "(bytes \<times> json) list \<Rightarrow> bool \<times> CreateThingRequest \<Rightarrow> bool \<times> CreateThingRequest" where
  "object_CreateThingRequest [] acc = acc"
| "object_CreateThingRequest ((k, v) # ms) (ok, cr) =
     (case lookup_field [''deviceLinkOperation''] k of
        None \<Rightarrow> object_CreateThingRequest ms (ok, cr)
      | Some n \<Rightarrow>
          (case value_DeviceLinkOperation v (ok, DeviceLinkOperation cr) of
             (ok', d) \<Rightarrow> object_CreateThingRequest ms (ok', cr\<lparr>DeviceLinkOperation := d\<rparr>)))"

definition unmarshal :: "json \<Rightarrow> CreateThingRequest \<Rightarrow> error + CreateThingRequest" where
  "unmarshal v cr =
     (case v of
        JObject ms \<Rightarrow>
          (case object_CreateThingRequest ms (True, cr) of
             (ok, cr') \<Rightarrow> if ok then Inr cr' else Inl UnmarshalTypeError)
      | JNull \<Rightarrow> Inr cr
      | _ \<Rightarrow> Inl UnmarshalTypeError)"

text \<open>
  \<open>Decode body\<close> is \<open>json.NewDecoder(bytes.NewReader(body)).Decode(cr)\<close> for
  \<open>cr := &CreateThingRequest{}\<close>: the first JSON value of the body is read and stored;
  \<open>Inl\<close> is the error returned, \<open>Inr\<close> the struct after a return of \<open>nil\<close>.
\<close>

definition Decode :: "bytes \<Rightarrow> error + CreateThingRequest" where
  "Decode body =
     (case readValue body scanner_reset decodeState_init body of
        Inl err \<Rightarrow> Inl err
      | Inr (v, rest) \<Rightarrow> unmarshal v CreateThingRequest_zero)"

section \<open>encoding/json: encoding the provisioning request\<close>

text \<open>
  \<open>appendString\<close> with HTML escaping, as an \<open>Encoder\<close> does by default: the ASCII
  bytes outside \<open>htmlSafeSet\<close> are escaped, a byte that starts no well-formed UTF-8
  sequence becomes the escape of U+FFFD (backslash, ufffd), U+2028 and U+2029 are
  escaped, and every other sequence is copied. The counter is the number of bytes of
  a multi-byte sequence still to copy. Backspace and form feed have their short escapes,
  as Go 1.22 and later write them (earlier versions write them with four hex digits;
  both forms decode to the same byte).
\<close>

definition htmlSafe :: "char \<Rightarrow> bool" where
  "htmlSafe c =
     (32 \<le> byte c \<and> byte c < 128
      \<and> c \<notin> set [CHR 0x22, CHR ''&'', CHR ''<'', CHR ''>'', CHR 0x5C])"

definition hex :: "nat \<Rightarrow> char" where
  "hex n = ''0123456789abcdef'' ! (n mod 16)"

definition escape_ascii :: "char \<Rightarrow> bytes" where
  "escape_ascii b =
     (if b = CHR 0x5C \<or> b = CHR 0x22 then [CHR 0x5C, b]
      else if b = CHR 0x08 then [CHR 0x5C, CHR ''b'']
      else if b = CHR 0x0C then [CHR 0x5C, CHR ''f'']
      else if b = CHR 0x0A then [CHR 0x5C, CHR ''n'']
      else if b = CHR 0x0D then [CHR 0x5C, CHR ''r'']
      else if b = CHR 0x09 then [CHR 0x5C, CHR ''t'']
      else [CHR 0x5C, CHR ''u'', CHR ''0'', CHR ''0'', hex (byte b div 16), hex (byte b mod 16)])"

function appendString_loop :: "nat \<Rightarrow> bytes \<Rightarrow> bytes" where
  "appendString_loop k [] = []"
| "appendString_loop (Suc k) (c # cs) = c # appendString_loop k cs"
| "appendString_loop 0 (c # cs) =
     (if byte c < 128 then
        (if htmlSafe c then [c] else escape_ascii c) @ appendString_loop 0 cs
      else if utf8_len (c # cs) = 0 then
        [CHR 0x5C, CHR ''u'', CHR ''f'', CHR ''f'', CHR ''f'', CHR ''d''] @ appendString_loop 0 cs
      else if c = CHR 0xE2 \<and> take 2 cs = [CHR 0x80, CHR 0xA8] then
        [CHR 0x5C, CHR ''u'', CHR ''2'', CHR ''0'', CHR ''2'', CHR ''8'']
          @ appendString_loop 0 (drop 2 cs)
      else if c = CHR 0xE2 \<and> take 2 cs = [CHR 0x80, CHR 0xA9] then
        [CHR 0x5C, CHR ''u'', CHR ''2'', CHR ''0'', CHR ''2'', CHR ''9'']
          @ appendString_loop 0 (drop 2 cs)
      else c # appendString_loop (utf8_len (c # cs) - 1) cs)"
  by pat_completeness auto
termination
  by (relation "measure (\<lambda>(k, s). length s)") auto

definition appendString :: "bytes \<Rightarrow> bytes" where
  "appendString src = [CHR 0x22] @ appendString_loop 0 src @ [CHR 0x22]"

text \<open>
  The struct is written with its fields in declaration order under the names of their
  \<open>json\<close> tags; \<open>Encode\<close> ends the value with a newline. Encoding a struct of strings
  returns no error.
\<close>

definition Marshal :: "CreateSimulatedDeviceRequest \<Rightarrow> bytes" where
  "Marshal csdr =
     [CHR ''{''] @ appendString ''hardwareId'' @ [CHR '':''] @ appendString (HardwareId csdr)
     @ [CHR '',''] @ appendString ''productId'' @ [CHR '':''] @ appendString (Product csdr)
     @ [CHR '',''] @ appendString ''simulatorType'' @ [CHR '':'']
     @ appendString (SimulatorType csdr) @ [CHR ''}'']"

definition Encode :: "CreateSimulatedDeviceRequest \<Rightarrow> error + bytes" where
  "Encode csdr = Inr (Marshal csdr @ [CHR 0x0A])"

section \<open>io: readers and closers\<close>

text \<open>
  A reader delivers some bytes and then ends with \<open>io.EOF\<close> (\<open>None\<close>) or fails with
  an error. \<open>ReadAll\<close> returns the bytes read and the error, \<open>nil\<close> at \<open>io.EOF\<close>.
\<close>

datatype reader = Reader bytes "error option"

definition NewReader :: "bytes \<Rightarrow> reader" where
  "NewReader b = Reader b None"

fun ReadAll_reader :: "reader \<Rightarrow> bytes \<times> error option" where
  "ReadAll_reader (Reader b e) = (b, e)"

text \<open>
  An \<open>io.ReadCloser\<close> is either the plugin's own \<open>noopCloser\<close> around a reader, or a
  body supplied by the host or by the HTTP client: its reader and what its \<open>Close\<close>
  returns.
\<close>

datatype read_closer = noopCloser reader | ReadCloser reader "error option"

definition NoOpCloser :: "reader \<Rightarrow> read_closer" where
  "NoOpCloser r = noopCloser r"

fun ReadAll :: "read_closer \<Rightarrow> bytes \<times> error option" where
  "ReadAll (noopCloser r) = ReadAll_reader r"
| "ReadAll (ReadCloser r c) = ReadAll_reader r"

fun Close :: "read_closer \<Rightarrow> error option" where
  "Close (noopCloser r) = None"
| "Close (ReadCloser r c) = c"

section \<open>net/http: headers\<close>

text \<open>
  \<open>http.Header\<close> is a map from names to lists of values. It is an association list with
  distinct keys here; for the inbound header the order of the list is the order in
  which \<open>range\<close> visits the map, which Go leaves open.
\<close>

type_synonym header = "(string \<times> string list) list"

definition validHeaderFieldByte :: "char \<Rightarrow> bool" where
  "validHeaderFieldByte c =
     (isDigit c \<or> (97 \<le> byte c \<and> byte c \<le> 122) \<or> (65 \<le> byte c \<and> byte c \<le> 90)
      \<or> c \<in> set [CHR ''!'', CHR ''#'', CHR ''$'', CHR ''%'', CHR ''&'', CHR 0x27, CHR ''*'',
                   CHR ''+'', CHR ''-'', CHR ''.'', CHR ''^'', CHR ''_'', CHR 0x60, CHR ''|'',
                   CHR ''~''])"

definition isLower :: "char \<Rightarrow> bool" where
  "isLower c = (97 \<le> byte c \<and> byte c \<le> 122)"

definition isUpper :: "char \<Rightarrow> bool" where
  "isUpper c = (65 \<le> byte c \<and> byte c \<le> 90)"

fun canonical_loop :: "bool \<Rightarrow> bytes \<Rightarrow> bytes" where
  "canonical_loop upper [] = []"
| "canonical_loop upper (c # cs) =
     (let c' = (if upper \<and> isLower c then char_of (byte c - 32)
                else if \<not> upper \<and> isUpper c then char_of (byte c + 32)
                else c)
      in c' # canonical_loop (c' = CHR ''-'') cs)"

definition canonicalMIMEHeaderKey :: "bytes \<Rightarrow> bytes \<times> bool" where
  "canonicalMIMEHeaderKey a =
     (if a = [] then ([], False)
      else if \<exists>c \<in> set a. \<not> validHeaderFieldByte c \<and> c \<noteq> CHR '' '' then (a, False)
      else if CHR '' '' \<in> set a then (a, True)
      else (canonical_loop True a, True))"

fun canonical_check :: "bool \<Rightarrow> bytes \<Rightarrow> bytes \<Rightarrow> bytes" where
  "canonical_check upper [] s = s"
| "canonical_check upper (c # cs) s =
     (if \<not> validHeaderFieldByte c then s
      else if upper \<and> isLower c then fst (canonicalMIMEHeaderKey s)
      else if \<not> upper \<and> isUpper c then fst (canonicalMIMEHeaderKey s)
      else canonical_check (c = CHR ''-'') cs s)"

definition CanonicalMIMEHeaderKey :: "string \<Rightarrow> string" where
  "CanonicalMIMEHeaderKey s = canonical_check True s s"

text \<open>\<open>h[key]\<close>: the values stored under exactly this key, \<open>nil\<close> when there is none.\<close>

definition index :: "header \<Rightarrow> string \<Rightarrow> string list" where
  "index h key = (case map_of h key of None \<Rightarrow> [] | Some v \<Rightarrow> v)"

definition Header_Add :: "header \<Rightarrow> string \<Rightarrow> string \<Rightarrow> header" where
  "Header_Add h key val =
     (let k = CanonicalMIMEHeaderKey key in AList.update k (index h k @ [val]) h)"

definition Header_Set :: "header \<Rightarrow> string \<Rightarrow> string \<Rightarrow> header" where
  "Header_Set h key val = AList.update (CanonicalMIMEHeaderKey key) [val] h"

definition Header_Values :: "header \<Rightarrow> string \<Rightarrow> string list" where
  "Header_Values h key = index h (CanonicalMIMEHeaderKey key)"

section \<open>Log events\<close>

text \<open>
  The argument of a log call is an error, a string or a byte slice. The message
  \<open>fmt.Sprintf(format, v)\<close> is kept as the format and its argument, not expanded.
  \<open>Time\<close> 0 is the zero \<open>time.Time\<close>.
\<close>

datatype any = AnyError error | AnyString bytes | AnyBytes bytes

datatype msg = Sprintf string any

record Client =
  IP :: string
  Port :: int

record Network =
  Client :: Client

record LogEvent =
  Level :: string
  Msg :: msg
  Time :: nat
  Network :: Network
  URL :: string

definition newLogEvent :: "string \<Rightarrow> msg \<Rightarrow> LogEvent" where
  "newLogEvent level m =
     \<lparr>Level = level, Msg = m, Time = 0,
      Network = \<lparr>Client = \<lparr>IP = [], Port = 0\<rparr>\<rparr>, URL = []\<rparr>"

definition logInfo :: "string \<Rightarrow> any \<Rightarrow> LogEvent" where
  "logInfo format v = newLogEvent ''info'' (Sprintf format v)"

definition logWarn :: "string \<Rightarrow> any \<Rightarrow> LogEvent" where
  "logWarn format v = newLogEvent ''warn'' (Sprintf format v)"

definition logError :: "string \<Rightarrow> any \<Rightarrow> LogEvent" where
  "logError format v = newLogEvent ''error'' (Sprintf format v)"

text \<open>
  \<open>print\<close> is the only function of the package that writes to standard output: it
  appends one line, the JSON of the event (\<open>json.Marshal\<close> of a \<open>LogEvent\<close> is a
  parameter).
\<close>

definition print :: "(LogEvent \<Rightarrow> string) \<Rightarrow> LogEvent \<Rightarrow> string list \<Rightarrow> string list" where
  "print marshal logEvent stdout = stdout @ [marshal logEvent]"

definition withNetwork :: "LogEvent \<Rightarrow> Network \<Rightarrow> LogEvent" where
  "withNetwork logEvent network = logEvent\<lparr>Network := network\<rparr>"

definition withUrl :: "LogEvent \<Rightarrow> string \<Rightarrow> LogEvent" where
  "withUrl logEvent url = logEvent\<lparr>LogEvent.URL := url\<rparr>"

section \<open>net/http: requests, responses and the environment\<close>

record Response =
  StatusCode :: int
  Status :: string
  Body :: read_closer

text \<open>
  The fields of \<open>http.Request\<close> that the plugin reads or writes. \<open>URL\<close> is the URL as
  the string the request was made from.
\<close>

record Request =
  Method :: string
  URL :: string
  Header :: header
  Body :: read_closer

text \<open>
  What the plugin calls outside the package and \<open>encoding/json\<close>:
  \<^item> \<open>url_Parse s\<close> is \<open>url.Parse(s)\<close>: the error, or the \<open>String()\<close> of the parsed URL;
  \<^item> \<open>NewRequest_err method url\<close> is the error of \<open>http.NewRequest(method, url, body)\<close>,
    if any (it parses \<open>url\<close> again and checks the method);
  \<^item> \<open>client_Do req\<close> is \<open>plugin.client.Do(req)\<close>: a transport error (a timeout after
    10 seconds is one), or the response.
\<close>

record env =
  url_Parse :: "string \<Rightarrow> error + string"
  NewRequest_err :: "string \<Rightarrow> string \<Rightarrow> error option"
  client_Do :: "Request \<Rightarrow> error + Response"

text \<open>
  \<open>http.NewRequest\<close> with a \<open>*bytes.Buffer\<close> as body: a request with the given method
  and URL, an empty header, and the buffer's bytes as its body.
\<close>

definition NewRequest :: "env \<Rightarrow> string \<Rightarrow> string \<Rightarrow> bytes \<Rightarrow> error + Request" where
  "NewRequest e method url body =
     (case NewRequest_err e method url of
        Some err \<Rightarrow> Inl err
      | None \<Rightarrow>
          Inr \<lparr>Method = method, URL = url, Header = [],
               Body = ReadCloser (NewReader body) None\<rparr>)"

section \<open>The plugin\<close>

record Config =
  IotHubUrl :: string
  SubscriptionKey :: string

definition CreateConfig :: Config where
  "CreateConfig = \<lparr>IotHubUrl = [], SubscriptionKey = []\<rparr>"

text \<open>
  The next handler and the HTTP client of \<open>SimulatedPlugin\<close> are not fields here: the
  client is \<open>client_Do\<close> of the environment, and a call of the next handler is a value
  of the outcome below.
\<close>

record SimulatedPlugin =
  iotHubUrl :: string
  subscriptionKey :: string

definition New :: "Config \<Rightarrow> error + SimulatedPlugin" where
  "New config = Inr \<lparr>iotHubUrl = IotHubUrl config, subscriptionKey = SubscriptionKey config\<rparr>"

text \<open>
  What \<open>ServeHTTP\<close> does with the response writer \<open>w\<close>: it ends in exactly one call,
  \<open>http.NotFound(w, r)\<close> or \<open>plugin.next.ServeHTTP(w, r)\<close>. The outcome also records
  the requests handed to \<open>plugin.client.Do\<close>, the log events that were constructed, in
  order, and standard output.
\<close>

datatype 'w handler_call = NotFound 'w Request | next_ServeHTTP 'w Request

record 'w outcome =
  call :: "'w handler_call"
  sent :: "Request list"
  built :: "LogEvent list"
  stdout :: "string list"

text \<open>The two loops of lines 137 to 141: every value of every inbound header is added.\<close>

fun add_values :: "header \<Rightarrow> string \<Rightarrow> string list \<Rightarrow> header" where
  "add_values h k [] = h"
| "add_values h k (sv # v) = add_values (Header_Add h k sv) k v"

fun add_headers :: "header \<Rightarrow> header \<Rightarrow> header" where
  "add_headers h [] = h"
| "add_headers h ((k, v) # rest) = add_headers (add_values h k v) rest"

definition abort :: "'w \<Rightarrow> Request \<Rightarrow> Request list \<Rightarrow> LogEvent list \<Rightarrow> string list \<Rightarrow> 'w outcome" where
  "abort w r reqs evs out = \<lparr>call = NotFound w r, sent = reqs, built = evs, stdout = out\<rparr>"

text \<open>
  \<open>ServeHTTP e plugin out w r\<close>, with \<open>out\<close> standard output before the call. Every log
  call only constructs its event: the result is dropped, and \<open>print\<close> is not called.
\<close>

definition ServeHTTP :: "env \<Rightarrow> SimulatedPlugin \<Rightarrow> string list \<Rightarrow> 'w \<Rightarrow> Request \<Rightarrow> 'w outcome" where
  "ServeHTTP e plugin out w r =
     (case ReadAll (Request.Body r) of
        (body, Some err) \<Rightarrow> abort w r [] [logError ''error reading body: %v'' (AnyError err)] out
      | (body, None) \<Rightarrow>
     (case Decode body of
        Inl err \<Rightarrow> abort w r [] [logError ''error decoding body: %v'' (AnyError err)] out
      | Inr cr \<Rightarrow>
     (let found = logWarn ''found deviceId=%s''
                    (AnyString (DeviceLinkOperation.HardwareId (DeviceLinkOperation cr))) in
      case url_Parse e (iotHubUrl plugin @ ''/simulator/simulated/device'') of
        Inl err \<Rightarrow> abort w r [] [found, logError ''error creating url: %v'' (AnyError err)] out
      | Inr url \<Rightarrow>
     (let csdr = \<lparr>HardwareId = DeviceLinkOperation.HardwareId (DeviceLinkOperation cr),
                  Product = DeviceLinkOperation.Product (DeviceLinkOperation cr),
                  SimulatorType = SimulatorTypeManual\<rparr> in
      case Encode csdr of
        Inl err \<Rightarrow>
          abort w r []
            [found, logError ''error encoding create simulated device request: %v'' (AnyError err)] out
      | Inr csdrJson \<Rightarrow>
     (case NewRequest e ''POST'' url csdrJson of
        Inl err \<Rightarrow>
          abort w r []
            [found, logError ''error encoding create simulated device request: %v'' (AnyError err)] out
      | Inr req0 \<Rightarrow>
     (let req1 = req0\<lparr>Header := add_headers (Header req0) (Header r)\<rparr>;
          req = req1\<lparr>Header := Header_Set (Header req1) ''X-Subscription-Key'' (subscriptionKey plugin)\<rparr> in
      case client_Do e req of
        Inl err \<Rightarrow>
          abort w r [req]
            [found, logError ''error performing request to iothub: %v'' (AnyError err)] out
      | Inr resp \<Rightarrow>
          if StatusCode resp \<ge> 300 \<or> StatusCode resp < 200 then
            abort w r [req]
              [found, logError ''iot hub status code error: %s'' (AnyString (Status resp))] out
          else
     (case ReadAll (Response.Body resp) of
        (rb, Some err) \<Rightarrow>
          abort w r [req]
            [found, logError ''error reading iot hub response: %v'' (AnyError err)] out
      | (rb, None) \<Rightarrow>
          \<lparr>call = next_ServeHTTP w (r\<lparr>Request.Body := NoOpCloser (NewReader body)\<rparr>),
           sent = [req],
           built = [found, logError ''iot hub device created: %s'' (AnyBytes rb)],
           stdout = out\<rparr>)))))))"

section \<open>Auxiliary definitions for the proofs\<close>

text \<open>
  The request that lines 117 to 142 build from the decoded payload \<open>cr\<close> and the
  parsed URL; \<open>sent_cases\<close> below proves that it is the request \<open>ServeHTTP\<close> sends.
\<close>

definition outbound_request ::
  "SimulatedPlugin \<Rightarrow> Request \<Rightarrow> CreateThingRequest \<Rightarrow> string \<Rightarrow> Request" where
  "outbound_request plugin r cr url =
     \<lparr>Method = ''POST'', URL = url,
      Header = Header_Set (add_headers [] (Header r)) ''X-Subscription-Key'' (subscriptionKey plugin),
      Body = ReadCloser (NewReader (Marshal
               \<lparr>HardwareId = DeviceLinkOperation.HardwareId (DeviceLinkOperation cr),
                Product = DeviceLinkOperation.Product (DeviceLinkOperation cr),
                SimulatorType = ''MANUAL''\<rparr> @ [CHR 0x0A])) None\<rparr>"

text \<open>A scanner state in which the input cannot end: a space does not complete a value.\<close>

definition open_state :: "scanner \<Rightarrow> bool" where
  "open_state s = (fst (scan_step s (CHR '' '')) \<noteq> scanEnd)"

text \<open>
  What a step on a closing bracket can give: an error, the end of the value, the close
  of a container (which ends the value or leaves an open state), or an open state.
\<close>

definition closer_ok :: "opcode \<times> scanner \<Rightarrow> bool" where
  "closer_ok r = (case r of (op, s') \<Rightarrow>
      op = scanError \<or> op = scanEnd
      \<or> ((op = scanEndObject \<or> op = scanEndArray) \<and>
          (fst (stateEndValue_f s' (CHR '' '')) = scanEnd
              \<or> open_state (snd (stateEndValue_f s' (CHR '' '')))))
      \<or> (op \<noteq> scanEndObject \<and> op \<noteq> scanEndArray \<and> open_state s'))"

text \<open>One step of \<open>canonical_loop\<close> on one byte.\<close>

definition canon_char :: "bool \<Rightarrow> char \<Rightarrow> char" where
  "canon_char upper c =
     (if upper \<and> isLower c then char_of (byte c - 32)
      else if \<not> upper \<and> isUpper c then char_of (byte c + 32)
      else c)"


section \<open>Example inputs\<close>

text \<open>
  An environment in which URL parsing and request construction succeed and the hub
  answers every request with the given status code and a body whose read ends with the
  given error, if any.
\<close>

definition example_env :: "int \<Rightarrow> error option \<Rightarrow> env" where
  "example_env code rerr =
     \<lparr>url_Parse = Inr, NewRequest_err = (\<lambda>method url. None),
      client_Do = (\<lambda>req. Inr \<lparr>StatusCode = code, Status = ''status'',
                                Body = ReadCloser (Reader ''created'' rerr) None\<rparr>)\<rparr>"

definition example_plugin :: SimulatedPlugin where
  "example_plugin = \<lparr>iotHubUrl = ''http://hub'', subscriptionKey = ''secret''\<rparr>"

definition example_request :: "bytes \<Rightarrow> header \<Rightarrow> Request" where
  "example_request body h =
     \<lparr>Method = ''POST'', URL = ''/link'', Header = h, Body = ReadCloser (NewReader body) None\<rparr>"

definition example_payload :: bytes where
  \<open>example_payload = ''{"deviceLinkOperation":{"identifier":"dev-123","product":"TRACKER"}}''\<close>

definition example_cr :: CreateThingRequest where
  "example_cr =
     \<lparr>DeviceLinkOperation = \<lparr>DeviceLinkOperation.HardwareId = ''dev-123'', Product = ''TRACKER''\<rparr>\<rparr>"

section \<open>Decoding: concrete bodies\<close>

lemma decode_example: "Decode example_payload = Inr example_cr"
  by code_simp

lemma decode_empty: "Decode [] = Inl EOF"
  by code_simp

lemma decode_not_json: "Decode ''not json'' = Inl SyntaxError"
  by code_simp

lemma decode_json_string: \<open>Decode ''"not json"'' = Inl UnmarshalTypeError\<close>
  by code_simp

lemma decode_empty_object: "Decode ''{}'' = Inr CreateThingRequest_zero"
  by code_simp

lemma decode_empty_envelope: \<open>Decode ''{"deviceLinkOperation":{}}'' = Inr CreateThingRequest_zero\<close>
  by code_simp

lemma decode_null: "Decode ''null'' = Inr CreateThingRequest_zero"
  by code_simp




section \<open>The pipeline of ServeHTTP\<close>

lemma sent_cases:
  assumes "req \<in> set (sent (ServeHTTP e p out w r))"
  shows "\<exists>body cr url. ReadAll (Request.Body r) = (body, None) \<and> Decode body = Inr cr
           \<and> url_Parse e (iotHubUrl p @ ''/simulator/simulated/device'') = Inr url
           \<and> NewRequest_err e ''POST'' url = None
           \<and> req = outbound_request p r cr url"
  using assms
  unfolding ServeHTTP_def abort_def NewRequest_def Encode_def Let_def outbound_request_def SimulatorTypeManual_def
  by (auto split: prod.splits option.splits sum.splits if_splits)

lemma ServeHTTP_after_send:
  assumes "ReadAll (Request.Body r) = (body, None)" "Decode body = Inr cr"
    "url_Parse e (iotHubUrl p @ ''/simulator/simulated/device'') = Inr url"
    "NewRequest_err e ''POST'' url = None"
  shows "ServeHTTP e p out w r =
    (let found = logWarn ''found deviceId=%s'' (AnyString (DeviceLinkOperation.HardwareId (DeviceLinkOperation cr)));
         req = outbound_request p r cr url in
     case client_Do e req of
        Inl err \<Rightarrow>
          abort w r [req]
            [found, logError ''error performing request to iothub: %v'' (AnyError err)] out
      | Inr resp \<Rightarrow>
          if StatusCode resp \<ge> 300 \<or> StatusCode resp < 200 then
            abort w r [req]
              [found, logError ''iot hub status code error: %s'' (AnyString (Status resp))] out
          else
     (case ReadAll (Response.Body resp) of
        (rb, Some err) \<Rightarrow>
          abort w r [req]
            [found, logError ''error reading iot hub response: %v'' (AnyError err)] out
      | (rb, None) \<Rightarrow>
          \<lparr>call = next_ServeHTTP w (r\<lparr>Request.Body := NoOpCloser (NewReader body)\<rparr>),
           sent = [req],
           built = [found, logError ''iot hub device created: %s'' (AnyBytes rb)],
           stdout = out\<rparr>))"
  using assms
  unfolding ServeHTTP_def NewRequest_def Encode_def Let_def outbound_request_def SimulatorTypeManual_def
  by (simp split: sum.splits prod.splits option.splits)

section \<open>Trailing bytes after the first value\<close>

lemma space_facts [simp]: "isSpace (CHR '' '')" "\<not> isSpace (CHR ''}'')" "\<not> isSpace (CHR '']'')"
  "\<not> isDigit (CHR ''}'')" "\<not> isDigit (CHR '']'')" "\<not> isDigit19 (CHR ''}'')" "\<not> isDigit19 (CHR '']'')"
  "\<not> isHex (CHR ''}'')" "\<not> isHex (CHR '']'')" "\<not> byte (CHR '' '') < 32"
  "\<not> byte (CHR ''}'') < 32" "\<not> byte (CHR '']'') < 32"
  by (simp_all add: isSpace_def isDigit_def isDigit19_def isHex_def byte_def)

lemma endValue_space:
  "parseState s \<noteq> [] \<Longrightarrow> stateEndValue_f s (CHR '' '') = (scanSkipSpace, s\<lparr>step := stateEndValue\<rparr>)"
  by (cases "parseState s") (simp_all add: stateEndValue_f_def goto_def)

lemma endValue_space_empty:
  "parseState s = [] \<Longrightarrow> fst (stateEndValue_f s (CHR '' '')) = scanEnd"
  by (simp add: stateEndValue_f_def stateEndTop_f_def)

lemma open_endValue: "parseState s \<noteq> [] \<Longrightarrow> step s = stateEndValue \<Longrightarrow> open_state s"
  by (simp add: open_state_def scan_step_def endValue_space)

lemma after_pop:
  "fst (stateEndValue_f (popParseState s) (CHR '' '')) = scanEnd
   \<or> open_state (snd (stateEndValue_f (popParseState s) (CHR '' '')))"
proof (cases "parseState (popParseState s) = []")
  case True
  then show ?thesis by (simp add: endValue_space_empty)
next
  case False
  then show ?thesis by (simp add: endValue_space open_endValue)
qed

lemma closer_ok_error [simp]: "closer_ok (scan_error s)"
  by (simp add: closer_ok_def scan_error_def)

lemma endValue_closer:
  "parseState s = parseObjectKey # rest \<Longrightarrow> stateEndValue_f s (CHR ''}'') = scan_error s"
  "parseState s = parseObjectKey # rest \<Longrightarrow> stateEndValue_f s (CHR '']'') = scan_error s"
  "parseState s = parseObjectValue # rest \<Longrightarrow> stateEndValue_f s (CHR ''}'') = (scanEndObject, popParseState s)"
  "parseState s = parseObjectValue # rest \<Longrightarrow> stateEndValue_f s (CHR '']'') = scan_error s"
  "parseState s = parseArrayValue # rest \<Longrightarrow> stateEndValue_f s (CHR ''}'') = scan_error s"
  "parseState s = parseArrayValue # rest \<Longrightarrow> stateEndValue_f s (CHR '']'') = (scanEndArray, popParseState s)"
  "parseState s = [] \<Longrightarrow> fst (stateEndValue_f s c) = scanEnd"
  by (simp_all add: stateEndValue_f_def stateEndTop_f_def)

lemma closer_ok_pop [simp]:
  "closer_ok (scanEndObject, popParseState s)" "closer_ok (scanEndArray, popParseState s)"
  using after_pop [of s] by (simp_all add: closer_ok_def)

lemma closer_ok_end: "fst r = scanEnd \<Longrightarrow> closer_ok r"
  by (cases r) (simp add: closer_ok_def)

lemma closer_ok_endValue:
  assumes "c = CHR ''}'' \<or> c = CHR '']''"
  shows "closer_ok (stateEndValue_f s c)"
proof (cases "parseState s")
  case Nil
  then show ?thesis by (simp add: closer_ok_end endValue_closer)
next
  case (Cons ps rest)
  then show ?thesis using assms
    by (cases ps) (auto simp: endValue_closer)
qed

lemma closer_ok_open: "open_state s' \<Longrightarrow> closer_ok (scanContinue, s')"
  by (simp add: closer_ok_def)



lemma closer_ok_endValue' [simp]:
  "closer_ok (stateEndValue_f s (CHR ''}''))" "closer_ok (stateEndValue_f s (CHR '']''))"
  by (simp_all add: closer_ok_endValue)

lemma closer_ok_step_brace: "closer_ok (scan_step s (CHR ''}''))"
proof (cases "step s")
  case stateInString
  then have "open_state s" by (simp add: open_state_def scan_step_def)
  with stateInString show ?thesis
    by (simp add: scan_step_def closer_ok_open)
next
  case stateEndTop
  then show ?thesis by (simp add: scan_step_def stateEndTop_f_def closer_ok_end)
next
  case stateError
  then show ?thesis by (simp add: scan_step_def closer_ok_def)
qed (simp_all add: scan_step_def stateBeginValue_f_def stateBeginString_f_def state0_f_def
         stateESign_f_def expect_def)


lemma closer_ok_step_bracket: "closer_ok (scan_step s (CHR '']''))"
proof (cases "step s")
  case stateInString
  then have "open_state s" by (simp add: open_state_def scan_step_def)
  with stateInString show ?thesis
    by (simp add: scan_step_def closer_ok_open)
next
  case stateEndTop
  then show ?thesis by (simp add: scan_step_def stateEndTop_f_def closer_ok_end)
next
  case stateError
  then show ?thesis by (simp add: scan_step_def closer_ok_def)
qed (simp_all add: scan_step_def stateBeginValue_f_def stateBeginString_f_def state0_f_def
         stateESign_f_def expect_def)

lemma finish_append: "finish d rest = Inr (v, rest') \<Longrightarrow> finish d (rest @ t) = Inr (v, rest' @ t)"
  by (auto simp: finish_def split: option.splits)

lemma readValue_append:
  assumes "readValue buf s d cs = Inr (v, rest)"
    and "cs = [] \<longrightarrow> open_state s"
    and "cs \<noteq> [] \<longrightarrow> last cs = CHR ''}'' \<or> last cs = CHR '']''"
  shows "readValue buf' s d (cs @ t) = Inr (v, rest @ t)"
  using assms
proof (induction cs arbitrary: s d)
  case Nil
  then show ?case by (simp add: open_state_def split: if_splits)
next
  case (Cons c cs)
  obtain op s' where st: "scan_step s c = (op, s')" by (cases "scan_step s c")
  obtain op' s'' where ev: "stateEndValue_f s' (CHR '' '') = (op', s'')"
    by (cases "stateEndValue_f s' (CHR '' '')")
  have last: "cs \<noteq> [] \<longrightarrow> last cs = CHR ''}'' \<or> last cs = CHR '']''"
    using Cons.prems(3) by auto
  have ok: "cs = [] \<longrightarrow> closer_ok (op, s')"
    using Cons.prems(3) st closer_ok_step_brace [of s] closer_ok_step_bracket [of s] by auto
  show ?case
  proof (cases "op = scanError \<or> op = scanEnd")
    case True
    then show ?thesis using Cons.prems(1) st finish_append [of d "c # cs" v rest t] by auto
  next
    case False
    then obtain d' where b: "build op c d = Some d'"
      using Cons.prems(1) st by (auto split: option.splits)
    show ?thesis
    proof (cases "op = scanEndObject \<or> op = scanEndArray")
      case True
      show ?thesis
      proof (cases "op' = scanEnd")
        case True
        then show ?thesis using Cons.prems(1) st ev b False \<open>op = scanEndObject \<or> op = scanEndArray\<close>
            finish_append [of d' cs v rest t]
          by auto
      next
        case ne: False
        have "readValue buf s'' d' cs = Inr (v, rest)"
          using Cons.prems(1) st ev b False True ne by auto
        moreover have "cs = [] \<longrightarrow> open_state s''"
          using ok ev True ne by (auto simp: closer_ok_def)
        ultimately have "readValue buf' s'' d' (cs @ t) = Inr (v, rest @ t)"
          using Cons.IH last by blast
        then show ?thesis using st ev b False True ne by auto
      qed
    next
      case nc: False
      have "readValue buf s' d' cs = Inr (v, rest)"
        using Cons.prems(1) st b False nc by auto
      moreover have "cs = [] \<longrightarrow> open_state s'"
        using ok False nc by (auto simp: closer_ok_def)
      ultimately have "readValue buf' s' d' (cs @ t) = Inr (v, rest @ t)"
        using Cons.IH last by blast
      then show ?thesis using st b False nc by auto
    qed
  qed
qed

lemma open_reset: "open_state scanner_reset"
  by (simp add: open_state_def scanner_reset_def scan_step_def stateBeginValue_f_def)

lemma Decode_append:
  assumes "Decode b = Inr cr" "b \<noteq> []" "last b = CHR ''}''"
  shows "Decode (b @ t) = Inr cr"
proof -
  obtain v rest where rv: "readValue b scanner_reset decodeState_init b = Inr (v, rest)"
    and um: "unmarshal v CreateThingRequest_zero = Inr cr"
    using assms(1) by (auto simp: Decode_def split: sum.splits prod.splits)
  have "readValue (b @ t) scanner_reset decodeState_init (b @ t) = Inr (v, rest @ t)"
    using readValue_append [OF rv] assms(2,3) by simp
  then show ?thesis using um by (simp add: Decode_def)
qed

section \<open>Headers\<close>

lemma canon_subscription_key:
  "CanonicalMIMEHeaderKey ''X-Subscription-Key'' = ''X-Subscription-Key''"
  by code_simp

lemma index_update: "index (AList.update k v h) k' = (if k' = k then v else index h k')"
  by (simp add: index_def update_conv')

lemma index_Header_Add:
  "index (Header_Add h key v) k' =
     (if k' = CanonicalMIMEHeaderKey key then index h k' @ [v] else index h k')"
  by (simp add: Header_Add_def Let_def index_update)

lemma index_Header_Set:
  "index (Header_Set h key v) k' = (if k' = CanonicalMIMEHeaderKey key then [v] else index h k')"
  by (simp add: Header_Set_def index_update)

lemma index_add_values:
  "index (add_values h k vs) k' =
     (if k' = CanonicalMIMEHeaderKey k then index h k' @ vs else index h k')"
  by (induction vs arbitrary: h) (simp_all add: index_Header_Add)

lemma index_add_headers:
  "index (add_headers h hs) k' =
     index h k' @ concat (map snd (filter (\<lambda>kv. CanonicalMIMEHeaderKey (fst kv) = k') hs))"
proof (induction hs arbitrary: h)
  case Nil
  then show ?case by simp
next
  case (Cons kv hs)
  obtain k v where kv: "kv = (k, v)" by (cases kv)
  show ?case using Cons.IH [of "add_values h k v"] by (auto simp: kv index_add_values)
qed

lemma index_empty [simp]: "index [] k = []"
  by (simp add: index_def)

lemma concat_filter_canonical:
  assumes "distinct (map fst hs)"
  shows "concat (map snd (filter (\<lambda>kv. fst kv = k') hs)) = index hs k'"
  using assms
proof (induction hs)
  case Nil
  then show ?case by simp
next
  case (Cons kv hs)
  obtain k v where kv: "kv = (k, v)" by (cases kv)
  show ?case
  proof (cases "k = k'")
    case True
    then have "k' \<notin> fst ` set hs" using Cons.prems kv by auto
    then have "filter (\<lambda>kv. fst kv = k') hs = []" by (auto simp: filter_empty_conv)
    then show ?thesis using True kv by (simp add: index_def)
  next
    case False
    then show ?thesis using Cons kv by (simp add: index_def)
  qed
qed

lemma keys_update: "fst ` set (AList.update k v h) = insert k (fst ` set h)"
  by (induction h) auto

lemma keys_add_values:
  "fst ` set (add_values h k vs) = (if vs = [] then fst ` set h else insert (CanonicalMIMEHeaderKey k) (fst ` set h))"
  by (induction vs arbitrary: h) (auto simp: Header_Add_def Let_def keys_update)

lemma keys_add_headers:
  "fst ` set (add_headers h hs) \<subseteq> fst ` set h \<union> CanonicalMIMEHeaderKey ` fst ` set hs"
proof (induction hs arbitrary: h)
  case Nil
  then show ?case by simp
next
  case (Cons kv hs)
  obtain k v where kv: "kv = (k, v)" by (cases kv)
  show ?case using Cons.IH [of "add_values h k v"]
    by (auto simp: kv keys_add_values split: if_splits)
qed

lemma distinct_add_values: "distinct (map fst h) \<Longrightarrow> distinct (map fst (add_values h k vs))"
  by (induction vs arbitrary: h) (simp_all add: Header_Add_def Let_def distinct_update)

lemma distinct_add_headers: "distinct (map fst h) \<Longrightarrow> distinct (map fst (add_headers h hs))"
  by (induction hs arbitrary: h) (auto simp: distinct_add_values)

lemma canonical_loop_Cons:
  "canonical_loop upper (c # cs) = canon_char upper c # canonical_loop (canon_char upper c = CHR ''-'') cs"
  by (simp add: canon_char_def Let_def)

lemma byte_char_of: "n < 256 \<Longrightarrow> byte (char_of n) = n"
  by (simp add: byte_def)

lemma byte_eq_iff: "c = d \<longleftrightarrow> byte c = byte d"
  by (auto simp: byte_def)

lemma byte_dash: "byte (CHR ''-'') = 45"
  by (simp add: byte_def)

lemma canon_char_facts:
  "canon_char upper (canon_char upper c) = canon_char upper c"
  "validHeaderFieldByte (canon_char upper c) = validHeaderFieldByte c"
  "(canon_char upper c = CHR ''-'') = (c = CHR ''-'')"
  by (auto simp: canon_char_def isLower_def isUpper_def validHeaderFieldByte_def isDigit_def
        byte_char_of byte_eq_iff [of _ "CHR ''-''"] byte_dash)


lemma canonical_loop_valid:
  "(\<forall>c \<in> set (canonical_loop upper s). validHeaderFieldByte c) = (\<forall>c \<in> set s. validHeaderFieldByte c)"
proof (induction s arbitrary: upper)
  case Nil
  then show ?case by simp
next
  case (Cons c s)
  then show ?case by (simp add: canonical_loop_Cons canon_char_facts del: canonical_loop.simps)
qed

lemma canonical_loop_idem:
  "canonical_loop upper (canonical_loop upper s) = canonical_loop upper s"
proof (induction s arbitrary: upper)
  case Nil
  then show ?case by simp
next
  case (Cons c s)
  then show ?case by (simp add: canonical_loop_Cons canon_char_facts del: canonical_loop.simps)
qed

lemma canon_char_neq:
  "upper \<and> isLower c \<or> \<not> upper \<and> isUpper c \<Longrightarrow> canon_char upper c \<noteq> c"
  by (auto simp: canon_char_def isLower_def isUpper_def byte_char_of byte_eq_iff [of "char_of _"])

lemma canon_char_same:
  "\<not> (upper \<and> isLower c) \<Longrightarrow> \<not> (\<not> upper \<and> isUpper c) \<Longrightarrow> canon_char upper c = c"
  by (auto simp: canon_char_def)

lemma canonical_check_valid:
  assumes "\<forall>c \<in> set cs. validHeaderFieldByte c"
  shows "canonical_check upper cs s =
           (if canonical_loop upper cs = cs then s else fst (canonicalMIMEHeaderKey s))"
  using assms
proof (induction cs arbitrary: upper)
  case Nil
  then show ?case by simp
next
  case (Cons c cs)
  show ?case
  proof (cases "upper \<and> isLower c \<or> \<not> upper \<and> isUpper c")
    case True
    then show ?thesis using Cons.prems canon_char_neq [OF True]
      by (auto simp: canonical_loop_Cons simp del: canonical_loop.simps)
  next
    case False
    then have same: "canon_char upper c = c" by (auto simp: canon_char_same)
    show ?thesis using False Cons.prems Cons.IH [of "c = CHR ''-''"]
      by (auto simp: canonical_loop_Cons same simp del: canonical_loop.simps)
  qed
qed

lemma canonical_check_range:
  "canonical_check upper cs s = s \<or> canonical_check upper cs s = fst (canonicalMIMEHeaderKey s)"
  by (induction cs arbitrary: upper) auto

lemma space_invalid: "\<not> validHeaderFieldByte (CHR '' '')"
  by (simp add: validHeaderFieldByte_def isDigit_def byte_def)

lemma canonicalMIMEHeaderKey_invalid:
  "\<exists>c \<in> set s. \<not> validHeaderFieldByte c \<Longrightarrow> fst (canonicalMIMEHeaderKey s) = s"
  by (auto simp: canonicalMIMEHeaderKey_def)

lemma canonicalMIMEHeaderKey_valid:
  "\<forall>c \<in> set s. validHeaderFieldByte c \<Longrightarrow> fst (canonicalMIMEHeaderKey s) = canonical_loop True s"
  using space_invalid by (auto simp: canonicalMIMEHeaderKey_def)

lemma CanonicalMIMEHeaderKey_eq:
  "CanonicalMIMEHeaderKey s =
     (if \<forall>c \<in> set s. validHeaderFieldByte c then canonical_loop True s else s)"
proof (cases "\<forall>c \<in> set s. validHeaderFieldByte c")
  case True
  then show ?thesis
    by (simp add: CanonicalMIMEHeaderKey_def canonical_check_valid canonicalMIMEHeaderKey_valid)
next
  case False
  then show ?thesis
    using canonical_check_range [of True s s] canonicalMIMEHeaderKey_invalid [of s]
    by (auto simp: CanonicalMIMEHeaderKey_def)
qed

lemma CanonicalMIMEHeaderKey_idem:
  "CanonicalMIMEHeaderKey (CanonicalMIMEHeaderKey s) = CanonicalMIMEHeaderKey s"
  by (simp add: CanonicalMIMEHeaderKey_eq canonical_loop_valid canonical_loop_idem)


section \<open>The example inputs, run\<close>

lemma example_sent:
  assumes "Decode body = Inr cr"
  shows "sent (ServeHTTP (example_env code rerr) example_plugin out w (example_request body h))
         = [outbound_request example_plugin (example_request body h) cr
              ''http://hub/simulator/simulated/device'']"
  using ServeHTTP_after_send [of "example_request body h" body cr "example_env code rerr"
      example_plugin "''http://hub/simulator/simulated/device''" out w] assms
  by (simp add: example_env_def example_plugin_def example_request_def NewReader_def Let_def abort_def
        split: prod.splits option.splits)

lemma example_call:
  assumes "Decode body = Inr cr"
  shows "call (ServeHTTP (example_env code rerr) example_plugin out w (example_request body h))
         = (if 300 \<le> code \<or> code < 200 \<or> rerr \<noteq> None then NotFound w (example_request body h)
            else next_ServeHTTP w ((example_request body h)\<lparr>Request.Body := NoOpCloser (NewReader body)\<rparr>))"
  using ServeHTTP_after_send [of "example_request body h" body cr "example_env code rerr"
      example_plugin "''http://hub/simulator/simulated/device''" out w] assms
  by (auto simp add: example_env_def example_plugin_def example_request_def NewReader_def Let_def abort_def
        split: prod.splits option.splits)

section \<open>The header of the outbound request\<close>

lemma outbound_header:
  "Header (outbound_request p r cr url)
     = Header_Set (add_headers [] (Header r)) ''X-Subscription-Key'' (subscriptionKey p)"
  by (simp add: outbound_request_def)

lemma outbound_keys_canonical:
  assumes "k \<in> fst ` set (Header (outbound_request p r cr url))"
  shows "CanonicalMIMEHeaderKey k = k"
proof -
  have "k \<in> insert ''X-Subscription-Key'' (CanonicalMIMEHeaderKey ` fst ` set (Header r))"
    using assms keys_add_headers [of "[]" "Header r"]
    by (auto simp: outbound_header Header_Set_def keys_update canon_subscription_key)
  then show ?thesis
    using canon_subscription_key by (auto simp: CanonicalMIMEHeaderKey_idem)
qed

lemma outbound_distinct: "distinct (map fst (Header (outbound_request p r cr url)))"
  by (simp add: outbound_header Header_Set_def distinct_update distinct_add_headers)

lemma index_entry: "distinct (map fst h) \<Longrightarrow> (k, vs) \<in> set h \<Longrightarrow> index h k = vs"
  by (simp add: index_def)

section \<open>The outbound request after a successful decode\<close>


lemma sent_after_decode:
  assumes "ReadAll (Request.Body r) = (body, None)" "Decode body = Inr cr"
  shows "sent (ServeHTTP e p out w r) =
     (case url_Parse e (iotHubUrl p @ ''/simulator/simulated/device'') of
        Inl err \<Rightarrow> []
      | Inr url \<Rightarrow> (case NewRequest_err e ''POST'' url of
                      Some err \<Rightarrow> []
                    | None \<Rightarrow> [outbound_request p r cr url]))"
proof (cases "url_Parse e (iotHubUrl p @ ''/simulator/simulated/device'')")
  case (Inl err)
  then show ?thesis using assms by (simp add: ServeHTTP_def abort_def Let_def)
next
  case (Inr url)
  show ?thesis
  proof (cases "NewRequest_err e ''POST'' url")
    case None
    show ?thesis
      using ServeHTTP_after_send [OF assms Inr None, of out w] Inr None
      by (simp add: Let_def abort_def split: sum.splits prod.splits option.splits)
  next
    case (Some err)
    then show ?thesis using assms Inr
      by (simp add: ServeHTTP_def abort_def Let_def NewRequest_def Encode_def)
  qed
qed

section \<open>The failures of the pipeline\<close>

lemma ServeHTTP_call_cases:
  "call (ServeHTTP e p out w r) = NotFound w r
   \<or> (\<exists>body. ReadAll (Request.Body r) = (body, None)
        \<and> call (ServeHTTP e p out w r)
            = next_ServeHTTP w (r\<lparr>Request.Body := NoOpCloser (NewReader body)\<rparr>))"
  unfolding ServeHTTP_def abort_def Let_def
  by (simp split: prod.splits option.splits sum.splits)

lemma fail_body_read:
  "snd (ReadAll (Request.Body r)) \<noteq> None \<Longrightarrow> call (ServeHTTP e p out w r) = NotFound w r"
  unfolding ServeHTTP_def abort_def Let_def
  by (auto split: prod.splits option.splits sum.splits)

lemma fail_decode:
  "ReadAll (Request.Body r) = (body, None) \<Longrightarrow> Decode body = Inl err
     \<Longrightarrow> call (ServeHTTP e p out w r) = NotFound w r"
  by (simp add: ServeHTTP_def abort_def)

lemma fail_url:
  "url_Parse e (iotHubUrl p @ ''/simulator/simulated/device'') = Inl err
     \<Longrightarrow> call (ServeHTTP e p out w r) = NotFound w r"
  unfolding ServeHTTP_def abort_def Let_def
  by (simp split: prod.splits option.splits sum.splits)

lemma fail_new_request:
  "url_Parse e (iotHubUrl p @ ''/simulator/simulated/device'') = Inr url
     \<Longrightarrow> NewRequest_err e ''POST'' url = Some err
     \<Longrightarrow> call (ServeHTTP e p out w r) = NotFound w r"
  unfolding ServeHTTP_def abort_def Let_def NewRequest_def Encode_def
  by (simp split: prod.splits option.splits sum.splits)

lemma fail_after_send:
  assumes "req \<in> set (sent (ServeHTTP e p out w r))"
  shows "client_Do e req = Inl err \<Longrightarrow> call (ServeHTTP e p out w r) = NotFound w r"
    and "client_Do e req = Inr resp \<Longrightarrow> 300 \<le> StatusCode resp \<or> StatusCode resp < 200
           \<Longrightarrow> call (ServeHTTP e p out w r) = NotFound w r"
    and "client_Do e req = Inr resp \<Longrightarrow> snd (ReadAll (Response.Body resp)) \<noteq> None
           \<Longrightarrow> call (ServeHTTP e p out w r) = NotFound w r"
proof -
  obtain body cr url where f: "ReadAll (Request.Body r) = (body, None)" "Decode body = Inr cr"
      "url_Parse e (iotHubUrl p @ ''/simulator/simulated/device'') = Inr url"
      "NewRequest_err e ''POST'' url = None" "req = outbound_request p r cr url"
    using sent_cases [OF assms(1)] by blast
  note run = ServeHTTP_after_send [OF f(1-4), of out w, folded f(5)]
  show "client_Do e req = Inl err \<Longrightarrow> call (ServeHTTP e p out w r) = NotFound w r"
    using run by (simp add: Let_def abort_def)
  show "client_Do e req = Inr resp \<Longrightarrow> 300 \<le> StatusCode resp \<or> StatusCode resp < 200
           \<Longrightarrow> call (ServeHTTP e p out w r) = NotFound w r"
    using run by (auto simp add: Let_def abort_def)
  show "client_Do e req = Inr resp \<Longrightarrow> snd (ReadAll (Response.Body resp)) \<noteq> None
           \<Longrightarrow> call (ServeHTTP e p out w r) = NotFound w r"
    using run by (auto simp add: Let_def abort_def split: prod.splits option.splits)
qed

section \<open>Requests with the same payload\<close>

lemma ServeHTTP_same_payload:
  assumes "ReadAll (Request.Body r1) = (b1, None)" "ReadAll (Request.Body r2) = (b2, None)"
    and "Decode b1 = Decode b2" and "Header r1 = Header r2"
  shows "sent (ServeHTTP e p out w r1) = sent (ServeHTTP e p out w r2)
     \<and> built (ServeHTTP e p out w r1) = built (ServeHTTP e p out w r2)
     \<and> (call (ServeHTTP e p out w r1) = NotFound w r1 \<and> call (ServeHTTP e p out w r2) = NotFound w r2
        \<or> call (ServeHTTP e p out w r1) = next_ServeHTTP w (r1\<lparr>Request.Body := NoOpCloser (NewReader b1)\<rparr>)
          \<and> call (ServeHTTP e p out w r2) = next_ServeHTTP w (r2\<lparr>Request.Body := NoOpCloser (NewReader b2)\<rparr>))"
  using assms
  unfolding ServeHTTP_def abort_def Let_def NewRequest_def Encode_def
  by (simp split: prod.splits option.splits sum.splits)

section \<open>Decoding a payload with arbitrary plain strings\<close>












section \<open>Encoding strings that need no escape, and reading the encoding back\<close>













section \<open>The claims\<close>

text \<open>
  Claim C1, as amended. For every inbound request whose body reads without error, whose
  payload decodes, whose outbound provisioning call returns a status in [200,300)
  and whose outbound response body reads without error, the downstream handler is
  invoked with the original response writer and the request with its body replaced by
  a reader over the full inbound body captured at the start (not the transformed
  payload); reading that body gives the captured bytes, and closing it returns no error.
  As the claim is written, without the condition on the response body, it fails: the
  counterexample follows the witness.
\<close>

theorem C1_original_body_forwarded:
  assumes "ReadAll (Request.Body r) = (body, None)"
    and "Decode body = Inr cr"
    and "req \<in> set (sent (ServeHTTP e p out w r))"
    and "client_Do e req = Inr resp"
    and "200 \<le> StatusCode resp" and "StatusCode resp < 300"
    and "ReadAll (Response.Body resp) = (rb, None)"
  shows "call (ServeHTTP e p out w r)
           = next_ServeHTTP w (r\<lparr>Request.Body := NoOpCloser (NewReader body)\<rparr>)
         \<and> ReadAll (NoOpCloser (NewReader body)) = (body, None)
         \<and> Close (NoOpCloser (NewReader body)) = None"
proof -
  obtain body' cr' url where f: "ReadAll (Request.Body r) = (body', None)" "Decode body' = Inr cr'"
      "url_Parse e (iotHubUrl p @ ''/simulator/simulated/device'') = Inr url"
      "NewRequest_err e ''POST'' url = None" "req = outbound_request p r cr' url"
    using sent_cases [OF assms(3)] by blast
  have "body' = body" using f(1) assms(1) by simp
  then have "call (ServeHTTP e p out w r)
           = next_ServeHTTP w (r\<lparr>Request.Body := NoOpCloser (NewReader body)\<rparr>)"
    using ServeHTTP_after_send [OF f(1-4), of out w] f(5) assms(4-7) by (simp add: Let_def)
  then show ?thesis by (simp add: NoOpCloser_def NewReader_def)
qed

theorem C1_witness:
  "call (ServeHTTP (example_env 200 None) example_plugin [] () (example_request example_payload []))
     = next_ServeHTTP () ((example_request example_payload [])\<lparr>Request.Body := NoOpCloser (NewReader example_payload)\<rparr>)
   \<and> ReadAll (NoOpCloser (NewReader example_payload)) = (example_payload, None)
   \<and> Close (NoOpCloser (NewReader example_payload)) = None"
  using C1_original_body_forwarded [of "example_request example_payload []" example_payload example_cr
      "outbound_request example_plugin (example_request example_payload []) example_cr
              ''http://hub/simulator/simulated/device''"
      "example_env 200 None" example_plugin "[]" "()"
      "\<lparr>StatusCode = 200, Status = ''status'', Body = ReadCloser (Reader ''created'' None) None\<rparr>"
      "''created''"]
    example_sent [OF decode_example, of 200 None "[]" "()" "[]"] decode_example
  by (simp add: example_request_def NewReader_def example_env_def)

text \<open>
  The hub answers 200, the read of its response body fails: the request is not
  forwarded, the caller gets not-found.
\<close>

theorem C1_counterexample:
  "\<exists>req resp. ReadAll (Request.Body (example_request example_payload [])) = (example_payload, None)
     \<and> Decode example_payload = Inr example_cr
     \<and> req \<in> set (sent (ServeHTTP (example_env 200 (Some (OtherError ''connection reset''))) example_plugin []
                 () (example_request example_payload [])))
     \<and> client_Do (example_env 200 (Some (OtherError ''connection reset''))) req = Inr resp
     \<and> StatusCode resp = 200
     \<and> call (ServeHTTP (example_env 200 (Some (OtherError ''connection reset''))) example_plugin []
                 () (example_request example_payload []))
         = NotFound () (example_request example_payload [])"
  using example_sent [OF decode_example, of 200 "Some (OtherError ''connection reset'')" "[]" "()" "[]"]
    example_call [OF decode_example, of 200 "Some (OtherError ''connection reset'')" "[]" "()" "[]"]
    decode_example
  by (simp add: example_request_def NewReader_def example_env_def)

text \<open>
  Claim C2, as amended. When the outbound call has returned a response and the body
  of that response reads without error, the request is forwarded to the downstream
  handler if and only if the status code lies in [200,300), and a status outside that
  range gives a not-found response: for 200, 201 and 299 the request is forwarded, for
  300 and 199 it is not (the witness runs these five). As the claim is written, without
  the condition on the response body, it fails: the counterexample follows the witness.
\<close>

theorem C2_forwarded_iff_status_2xx:
  assumes "req \<in> set (sent (ServeHTTP e p out w r))"
    and "client_Do e req = Inr resp"
    and "ReadAll (Response.Body resp) = (rb, None)"
  shows "((\<exists>r'. call (ServeHTTP e p out w r) = next_ServeHTTP w r')
            \<longleftrightarrow> 200 \<le> StatusCode resp \<and> StatusCode resp < 300)
         \<and> (\<not> (200 \<le> StatusCode resp \<and> StatusCode resp < 300)
              \<longrightarrow> call (ServeHTTP e p out w r) = NotFound w r)"
proof -
  obtain body cr url where f: "ReadAll (Request.Body r) = (body, None)" "Decode body = Inr cr"
      "url_Parse e (iotHubUrl p @ ''/simulator/simulated/device'') = Inr url"
      "NewRequest_err e ''POST'' url = None" "req = outbound_request p r cr url"
    using sent_cases [OF assms(1)] by blast
  show ?thesis
    using ServeHTTP_after_send [OF f(1-4), of out w] f(5) assms(2,3)
    by (auto simp: Let_def abort_def)
qed

theorem C2_witness:
  "(\<exists>r'. call (ServeHTTP (example_env 200 None) example_plugin [] () (example_request example_payload []))
            = next_ServeHTTP () r')
   \<and> (\<exists>r'. call (ServeHTTP (example_env 201 None) example_plugin [] () (example_request example_payload []))
            = next_ServeHTTP () r')
   \<and> (\<exists>r'. call (ServeHTTP (example_env 299 None) example_plugin [] () (example_request example_payload []))
            = next_ServeHTTP () r')
   \<and> call (ServeHTTP (example_env 300 None) example_plugin [] () (example_request example_payload []))
        = NotFound () (example_request example_payload [])
   \<and> call (ServeHTTP (example_env 199 None) example_plugin [] () (example_request example_payload []))
        = NotFound () (example_request example_payload [])"
proof -
  let ?r = "example_request example_payload []"
  let ?req = "outbound_request example_plugin ?r example_cr ''http://hub/simulator/simulated/device''"
  have run: "?req \<in> set (sent (ServeHTTP (example_env code None) example_plugin [] () ?r))
      \<and> client_Do (example_env code None) ?req
           = Inr \<lparr>StatusCode = code, Status = ''status'', Body = ReadCloser (Reader ''created'' None) None\<rparr>
      \<and> ReadAll (Response.Body \<lparr>StatusCode = code, Status = ''status'',
            Body = ReadCloser (Reader ''created'' None) None\<rparr>) = (''created'', None)" for code
    using example_sent [OF decode_example, of code None "[]" "()" "[]"]
    by (simp add: example_env_def)
  show ?thesis
    using C2_forwarded_iff_status_2xx [of ?req "example_env 200 None" example_plugin "[]" "()" ?r _ "''created''"]
      C2_forwarded_iff_status_2xx [of ?req "example_env 201 None" example_plugin "[]" "()" ?r _ "''created''"]
      C2_forwarded_iff_status_2xx [of ?req "example_env 299 None" example_plugin "[]" "()" ?r _ "''created''"]
      C2_forwarded_iff_status_2xx [of ?req "example_env 300 None" example_plugin "[]" "()" ?r _ "''created''"]
      C2_forwarded_iff_status_2xx [of ?req "example_env 199 None" example_plugin "[]" "()" ?r _ "''created''"]
      run [of 200] run [of 201] run [of 299] run [of 300] run [of 199]
    by simp
qed

text \<open>
  The hub answers 204, the read of its response body times out: the status lies in
  [200,300) and the request is not forwarded.
\<close>

theorem C2_counterexample:
  "\<exists>req resp.
     req \<in> set (sent (ServeHTTP (example_env 204 (Some (OtherError ''timeout''))) example_plugin []
                 () (example_request example_payload [])))
     \<and> client_Do (example_env 204 (Some (OtherError ''timeout''))) req = Inr resp
     \<and> StatusCode resp = 204
     \<and> call (ServeHTTP (example_env 204 (Some (OtherError ''timeout''))) example_plugin []
                 () (example_request example_payload []))
         = NotFound () (example_request example_payload [])"
  using example_sent [OF decode_example, of 204 "Some (OtherError ''timeout'')" "[]" "()" "[]"]
    example_call [OF decode_example, of 204 "Some (OtherError ''timeout'')" "[]" "()" "[]"]
  by (simp add: example_env_def)

text \<open>
  Claim C3, as amended. For every inbound body on which decoding returns an error,
  handling calls \<open>http.NotFound\<close>, makes no outbound call and never invokes the
  downstream handler; the empty body, the body \<open>not json\<close> and the body that is the
  JSON string "not json" are such bodies. A JSON object without the deviceLinkOperation
  key is not: it decodes without error to the zero payload and handling goes on (the
  counterexample follows the witness).
\<close>

theorem C3_decode_error_not_found:
  \<open>(ReadAll (Request.Body r) = (body, None) \<and> Decode body = Inl err
      \<longrightarrow> call (ServeHTTP e p out w r) = NotFound w r \<and> sent (ServeHTTP e p out w r) = [])
   \<and> Decode [] = Inl EOF
   \<and> Decode ''not json'' = Inl SyntaxError
   \<and> Decode ''"not json"'' = Inl UnmarshalTypeError\<close>
  using decode_empty decode_not_json decode_json_string
  by (simp add: ServeHTTP_def abort_def)

theorem C3_witness:
  "call (ServeHTTP (example_env 200 None) example_plugin [] () (example_request ''not json'' []))
     = NotFound () (example_request ''not json'' [])
   \<and> sent (ServeHTTP (example_env 200 None) example_plugin [] () (example_request ''not json'' [])) = []"
  using C3_decode_error_not_found [of "example_request ''not json'' []" "''not json''" SyntaxError
      "example_env 200 None" example_plugin "[]" "()"]
  by (simp add: example_request_def NewReader_def)

text \<open>
  The body \<open>{}\<close> has no deviceLinkOperation key; it decodes, and with a hub that answers
  200 the request is forwarded.
\<close>

theorem C3_counterexample:
  "Decode ''{}'' = Inr CreateThingRequest_zero
   \<and> call (ServeHTTP (example_env 200 None) example_plugin [] () (example_request ''{}'' []))
       = next_ServeHTTP () ((example_request ''{}'' [])\<lparr>Request.Body := NoOpCloser (NewReader ''{}'')\<rparr>)"
  using example_call [OF decode_empty_object, of 200 None "[]" "()" "[]"] decode_empty_object
  by simp

text \<open>
  Claim C7 says that each log record constructed during handling is written to standard
  output. The code constructs at least one log event on every path and writes none:
  standard output after \<open>ServeHTTP\<close> is standard output before it.
\<close>

theorem C7_log_events_built_not_printed:
  "stdout (ServeHTTP e p out w r) = out \<and> built (ServeHTTP e p out w r) \<noteq> []"
  unfolding ServeHTTP_def abort_def Let_def
  by (simp split: prod.splits option.splits sum.splits)

theorem C7_witness:
  "stdout (ServeHTTP (example_env 200 None) example_plugin [] () (example_request [] [])) = []
   \<and> built (ServeHTTP (example_env 200 None) example_plugin [] () (example_request [] []))
       = [logError ''error decoding body: %v'' (AnyError EOF)]"
  using C7_log_events_built_not_printed [of "example_env 200 None" example_plugin "[]" "()" "example_request [] []"]
    decode_empty
  by (simp add: ServeHTTP_def abort_def example_request_def NewReader_def)

text \<open>
  Claim C4. For every inbound request that reaches the outbound call, the
  subscription-key header of the outbound request is exactly the configured
  subscription key, whatever values the inbound request carries under that name:
  the values stored under \<open>X-Subscription-Key\<close> are the configured key alone, and no
  other entry of the outbound header has a name that is \<open>X-Subscription-Key\<close> in
  canonical form (a caller's \<open>x-subscription-key\<close> is added under the canonical name
  and then replaced).
\<close>

theorem C4_subscription_key_is_configured:
  assumes "req \<in> set (sent (ServeHTTP e p out w r))"
  shows "index (Header req) ''X-Subscription-Key'' = [subscriptionKey p]
         \<and> Header_Values (Header req) ''X-Subscription-Key'' = [subscriptionKey p]
         \<and> (\<forall>k vs. (k, vs) \<in> set (Header req) \<and> CanonicalMIMEHeaderKey k = ''X-Subscription-Key''
               \<longrightarrow> k = ''X-Subscription-Key'' \<and> vs = [subscriptionKey p])"
proof -
  obtain cr url where req: "req = outbound_request p r cr url"
    using sent_cases [OF assms] by blast
  have ix: "index (Header req) ''X-Subscription-Key'' = [subscriptionKey p]"
    by (simp add: req outbound_header index_Header_Set canon_subscription_key)
  have "k = ''X-Subscription-Key'' \<and> vs = [subscriptionKey p]"
    if "(k, vs) \<in> set (Header req)" "CanonicalMIMEHeaderKey k = ''X-Subscription-Key''" for k vs
  proof -
    have "k \<in> fst ` set (Header req)" using that(1) by force
    then have "k = ''X-Subscription-Key''"
      using outbound_keys_canonical [of k p r cr url] that(2) req by simp
    moreover have "index (Header req) k = vs"
      using index_entry [OF _ that(1)] outbound_distinct req by simp
    ultimately show ?thesis using ix by simp
  qed
  with ix show ?thesis by (auto simp: Header_Values_def canon_subscription_key)
qed

theorem C4_witness:
  "sent (ServeHTTP (example_env 200 None) example_plugin [] ()
      (example_request example_payload
         [(''X-Subscription-Key'', [''caller-1'', ''caller-2'']), (''x-subscription-key'', [''caller-3''])]))
     = [outbound_request example_plugin (example_request example_payload
         [(''X-Subscription-Key'', [''caller-1'', ''caller-2'']), (''x-subscription-key'', [''caller-3''])])
         example_cr ''http://hub/simulator/simulated/device'']
   \<and> index (Header (outbound_request example_plugin (example_request example_payload
         [(''X-Subscription-Key'', [''caller-1'', ''caller-2'']), (''x-subscription-key'', [''caller-3''])])
         example_cr ''http://hub/simulator/simulated/device'')) ''X-Subscription-Key'' = [''secret'']"
  using C4_subscription_key_is_configured [of _ "example_env 200 None" example_plugin "[]" "()"
      "example_request example_payload
         [(''X-Subscription-Key'', [''caller-1'', ''caller-2'']), (''x-subscription-key'', [''caller-3''])]"]
    example_sent [OF decode_example, of 200 None "[]" "()"
       "[(''X-Subscription-Key'', [''caller-1'', ''caller-2'']), (''x-subscription-key'', [''caller-3''])]"]
  by (simp add: example_plugin_def)

text \<open>
  Claim C8, as amended. For every inbound request that reaches the outbound call, the
  values of every inbound header are added to the outbound header, in order, under the
  canonical MIME form of the header's name; so the values that the outbound request
  holds under a name other than \<open>X-Subscription-Key\<close> are the values of the inbound
  headers with that canonical name. When the inbound names are in canonical form (as
  Go's HTTP server delivers them) every header other than \<open>X-Subscription-Key\<close> has
  on the outbound request exactly its inbound values, in the inbound order, and the
  outbound request has no other header. As the claim is written, for every inbound
  request, it fails: the counterexample follows the witness.
\<close>

theorem C8_headers_copied_under_canonical_names:
  assumes "req \<in> set (sent (ServeHTTP e p out w r))"
    and "k \<noteq> ''X-Subscription-Key''"
  shows "index (Header req) k
           = concat (map snd (filter (\<lambda>kv. CanonicalMIMEHeaderKey (fst kv) = k) (Header r)))
         \<and> ((\<forall>h \<in> fst ` set (Header r). CanonicalMIMEHeaderKey h = h) \<and> distinct (map fst (Header r))
              \<longrightarrow> index (Header req) k = index (Header r) k)"
proof -
  obtain cr url where req: "req = outbound_request p r cr url"
    using sent_cases [OF assms(1)] by blast
  have ix: "index (Header req) k
      = concat (map snd (filter (\<lambda>kv. CanonicalMIMEHeaderKey (fst kv) = k) (Header r)))"
    using assms(2)
    by (simp add: req outbound_header index_Header_Set canon_subscription_key index_add_headers)
  have "index (Header req) k = index (Header r) k"
    if c: "\<forall>h \<in> fst ` set (Header r). CanonicalMIMEHeaderKey h = h" and d: "distinct (map fst (Header r))"
  proof -
    have "filter (\<lambda>kv. CanonicalMIMEHeaderKey (fst kv) = k) (Header r)
        = filter (\<lambda>kv. fst kv = k) (Header r)"
      using c by (intro filter_cong) auto
    then show ?thesis using ix concat_filter_canonical [OF d, of k] by simp
  qed
  then show ?thesis using ix by blast
qed

theorem C8_witness:
  "index (Header (outbound_request example_plugin (example_request example_payload
         [(''Accept'', [''a/b'', ''c/d'']), (''X-Trace'', [''t''])]) example_cr
         ''http://hub/simulator/simulated/device'')) ''Accept'' = [''a/b'', ''c/d'']"
proof -
  let ?h = "[(''Accept'', [''a/b'', ''c/d'']), (''X-Trace'', [''t''])]"
  have c: "CanonicalMIMEHeaderKey ''Accept'' = ''Accept''" "CanonicalMIMEHeaderKey ''X-Trace'' = ''X-Trace''"
    by code_simp+
  show ?thesis
    using C8_headers_copied_under_canonical_names [of _ "example_env 200 None" example_plugin "[]" "()"
        "example_request example_payload ?h" "''Accept''"]
      example_sent [OF decode_example, of 200 None "[]" "()" ?h] c
    by (simp add: example_request_def index_def)
qed

text \<open>
  An inbound header map with the name \<open>foo\<close>: the outbound request has nothing under
  \<open>foo\<close> and has the value under \<open>Foo\<close>, a name the inbound map does not have.
\<close>

theorem C8_counterexample:
  "sent (ServeHTTP (example_env 200 None) example_plugin [] ()
      (example_request example_payload [(''foo'', [''a''])]))
     = [outbound_request example_plugin (example_request example_payload [(''foo'', [''a''])])
         example_cr ''http://hub/simulator/simulated/device'']
   \<and> index (Header (example_request example_payload [(''foo'', [''a''])])) ''foo'' = [''a'']
   \<and> index (Header (outbound_request example_plugin (example_request example_payload [(''foo'', [''a''])])
         example_cr ''http://hub/simulator/simulated/device'')) ''foo'' = []
   \<and> index (Header (example_request example_payload [(''foo'', [''a''])])) ''Foo'' = []
   \<and> index (Header (outbound_request example_plugin (example_request example_payload [(''foo'', [''a''])])
         example_cr ''http://hub/simulator/simulated/device'')) ''Foo'' = [''a'']"
proof -
  have c: "CanonicalMIMEHeaderKey ''foo'' = ''Foo''" by code_simp
  have inbound: "index (Header (example_request example_payload [(''foo'', [''a''])])) ''foo'' = [''a'']"
    "index (Header (example_request example_payload [(''foo'', [''a''])])) ''Foo'' = []"
    by (simp_all add: example_request_def index_def)
  have hdr: "Header (example_request example_payload [(''foo'', [''a''])]) = [(''foo'', [''a''])]"
    by (simp add: example_request_def)
  have outbound: "index (Header (outbound_request example_plugin (example_request example_payload [(''foo'', [''a''])])
         example_cr ''http://hub/simulator/simulated/device'')) ''foo'' = []"
    "index (Header (outbound_request example_plugin (example_request example_payload [(''foo'', [''a''])])
         example_cr ''http://hub/simulator/simulated/device'')) ''Foo'' = [''a'']"
    using c by (simp_all add: outbound_header hdr index_Header_Set index_Header_Add canon_subscription_key)
  show ?thesis
    using example_sent [OF decode_example, of 200 None "[]" "()" "[(''foo'', [''a''])]"] inbound outbound
    by simp
qed



text \<open>
  Claim C6. \<open>ServeHTTP\<close> ends in one of two ways: \<open>http.NotFound\<close> on the original
  writer and request, or the call of the downstream handler. A failure at any stage
  ends in \<open>http.NotFound\<close>, so without forwarding: a failed read of the inbound body, a
  decode error, a URL that does not parse, a request that cannot be constructed (the
  encoding of the provisioning request itself returns no error), a transport error of
  the outbound call, a status outside [200,300), and a failed read of the response body.
\<close>

theorem C6_every_failure_is_not_found:
  "(call (ServeHTTP e p out w r) = NotFound w r
     \<or> (\<exists>body. ReadAll (Request.Body r) = (body, None)
          \<and> call (ServeHTTP e p out w r)
              = next_ServeHTTP w (r\<lparr>Request.Body := NoOpCloser (NewReader body)\<rparr>)))
   \<and> (snd (ReadAll (Request.Body r)) \<noteq> None \<longrightarrow> call (ServeHTTP e p out w r) = NotFound w r)
   \<and> (ReadAll (Request.Body r) = (body, None) \<and> Decode body = Inl err
        \<longrightarrow> call (ServeHTTP e p out w r) = NotFound w r)
   \<and> (url_Parse e (iotHubUrl p @ ''/simulator/simulated/device'') = Inl err
        \<longrightarrow> call (ServeHTTP e p out w r) = NotFound w r)
   \<and> (\<forall>csdr. \<exists>csdrJson. Encode csdr = Inr csdrJson)
   \<and> (url_Parse e (iotHubUrl p @ ''/simulator/simulated/device'') = Inr url
        \<and> NewRequest_err e ''POST'' url = Some err
        \<longrightarrow> call (ServeHTTP e p out w r) = NotFound w r)
   \<and> (\<forall>req \<in> set (sent (ServeHTTP e p out w r)).
        (client_Do e req = Inl err \<longrightarrow> call (ServeHTTP e p out w r) = NotFound w r)
        \<and> (\<forall>resp. client_Do e req = Inr resp
              \<and> (300 \<le> StatusCode resp \<or> StatusCode resp < 200
                  \<or> snd (ReadAll (Response.Body resp)) \<noteq> None)
             \<longrightarrow> call (ServeHTTP e p out w r) = NotFound w r))"
  using ServeHTTP_call_cases [of e p out w r] fail_body_read [of r e p out w]
    fail_decode [of r body err e p out w] fail_url [of e p err out w r]
    fail_new_request [of e p url err out w r] fail_after_send [of _ e p out w r]
  by (simp add: Encode_def) blast

theorem C6_witness:
  "call (ServeHTTP (example_env 200 None) example_plugin [] ()
       \<lparr>Method = ''POST'', URL = ''/link'', Header = [],
        Body = ReadCloser (Reader ''{'' (Some (OtherError ''connection reset''))) None\<rparr>)
     = NotFound () \<lparr>Method = ''POST'', URL = ''/link'', Header = [],
        Body = ReadCloser (Reader ''{'' (Some (OtherError ''connection reset''))) None\<rparr>
   \<and> call (ServeHTTP (example_env 200 None) example_plugin [] () (example_request ''not json'' []))
     = NotFound () (example_request ''not json'' [])
   \<and> call (ServeHTTP ((example_env 200 None)\<lparr>url_Parse := (\<lambda>s. Inl (OtherError ''invalid URL''))\<rparr>)
         example_plugin [] () (example_request example_payload []))
     = NotFound () (example_request example_payload [])
   \<and> call (ServeHTTP ((example_env 200 None)\<lparr>NewRequest_err := (\<lambda>m u. Some (OtherError ''invalid URL''))\<rparr>)
         example_plugin [] () (example_request example_payload []))
     = NotFound () (example_request example_payload [])
   \<and> call (ServeHTTP ((example_env 200 None)\<lparr>client_Do := (\<lambda>req. Inl (OtherError ''connection refused''))\<rparr>)
         example_plugin [] () (example_request example_payload []))
     = NotFound () (example_request example_payload [])
   \<and> call (ServeHTTP (example_env 500 None) example_plugin [] () (example_request example_payload []))
     = NotFound () (example_request example_payload [])
   \<and> call (ServeHTTP (example_env 200 (Some (OtherError ''timeout''))) example_plugin [] ()
         (example_request example_payload []))
     = NotFound () (example_request example_payload [])"
proof -
  let ?r = "example_request example_payload []"
  let ?u = "''http://hub/simulator/simulated/device''"
  let ?req = "outbound_request example_plugin ?r example_cr ?u"
  let ?e = "example_env 200 None"
  let ?rb = "\<lparr>Method = ''POST'', URL = ''/link'', Header = [],
        Body = ReadCloser (Reader ''{'' (Some (OtherError ''connection reset''))) None\<rparr>"
  let ?eu = "?e\<lparr>url_Parse := (\<lambda>s. Inl (OtherError ''invalid URL''))\<rparr>"
  let ?en = "?e\<lparr>NewRequest_err := (\<lambda>m u. Some (OtherError ''invalid URL''))\<rparr>"
  let ?et = "?e\<lparr>client_Do := (\<lambda>req. Inl (OtherError ''connection refused''))\<rparr>"
  have rd: "ReadAll (Request.Body ?r) = (example_payload, None)"
    by (simp add: example_request_def NewReader_def)
  have 1: "call (ServeHTTP ?e example_plugin [] () ?rb) = NotFound () ?rb"
    using C6_every_failure_is_not_found [of ?e example_plugin "[]" "()" ?rb,
        THEN conjunct2, THEN conjunct1]
    by simp
  have 2: "call (ServeHTTP ?e example_plugin [] () (example_request ''not json'' []))
      = NotFound () (example_request ''not json'' [])"
    using C6_every_failure_is_not_found [of ?e example_plugin "[]" "()" "example_request ''not json'' []"
        "''not json''" SyntaxError, THEN conjunct2, THEN conjunct2, THEN conjunct1] decode_not_json
    by (simp add: example_request_def NewReader_def)
  have 3: "call (ServeHTTP ?eu example_plugin [] () ?r) = NotFound () ?r"
    using C6_every_failure_is_not_found [of ?eu example_plugin "[]" "()" ?r _ "OtherError ''invalid URL''",
        THEN conjunct2, THEN conjunct2, THEN conjunct2, THEN conjunct1]
    by (simp add: example_env_def)
  have 4: "call (ServeHTTP ?en example_plugin [] () ?r) = NotFound () ?r"
    using C6_every_failure_is_not_found [of ?en example_plugin "[]" "()" ?r _ "OtherError ''invalid URL''" ?u,
        THEN conjunct2, THEN conjunct2, THEN conjunct2, THEN conjunct2, THEN conjunct2, THEN conjunct1]
    by (simp add: example_env_def example_plugin_def)
  have st: "?req \<in> set (sent (ServeHTTP ?et example_plugin [] () ?r))"
    using sent_after_decode [OF rd decode_example, of ?et example_plugin "[]" "()"]
    by (simp add: example_env_def example_plugin_def)
  have 5: "call (ServeHTTP ?et example_plugin [] () ?r) = NotFound () ?r"
    using C6_every_failure_is_not_found [of ?et example_plugin "[]" "()" ?r _ "OtherError ''connection refused''",
        THEN conjunct2, THEN conjunct2, THEN conjunct2, THEN conjunct2, THEN conjunct2, THEN conjunct2,
        THEN bspec, OF st, THEN conjunct1]
    by (simp add: example_env_def)
  have s6: "?req \<in> set (sent (ServeHTTP (example_env code rerr) example_plugin [] () ?r))" for code rerr
    using example_sent [OF decode_example, of code rerr "[]" "()" "[]"] by simp
  have 6: "call (ServeHTTP (example_env 500 None) example_plugin [] () ?r) = NotFound () ?r"
    using C6_every_failure_is_not_found [of "example_env 500 None" example_plugin "[]" "()" ?r,
        THEN conjunct2, THEN conjunct2, THEN conjunct2, THEN conjunct2, THEN conjunct2, THEN conjunct2,
        THEN bspec, OF s6, THEN conjunct2, rule_format,
        where resp = "\<lparr>StatusCode = 500, Status = ''status'', Body = ReadCloser (Reader ''created'' None) None\<rparr>"]
    by (simp add: example_env_def)
  have 7: "call (ServeHTTP (example_env 200 (Some (OtherError ''timeout''))) example_plugin [] () ?r)
      = NotFound () ?r"
    using C6_every_failure_is_not_found [of "example_env 200 (Some (OtherError ''timeout''))"
        example_plugin "[]" "()" ?r,
        THEN conjunct2, THEN conjunct2, THEN conjunct2, THEN conjunct2, THEN conjunct2, THEN conjunct2,
        THEN bspec, OF s6, THEN conjunct2, rule_format,
        where resp = "\<lparr>StatusCode = 200, Status = ''status'',
                Body = ReadCloser (Reader ''created'' (Some (OtherError ''timeout''))) None\<rparr>"]
    by (simp add: example_env_def)
  show ?thesis
    by (rule conjI [OF 1 conjI [OF 2 conjI [OF 3 conjI [OF 4 conjI [OF 5 conjI [OF 6 7]]]]]])
qed

text \<open>
  Claim C9. Decoding reads only the first JSON value of the body. A body \<open>b\<close> that
  decodes and ends with the closing brace of an object decodes to the same payload when
  any bytes \<open>t\<close> follow it, and the request with body \<open>b @ t\<close> is processed as the
  request with body \<open>b\<close> is: the same outbound request, the same log events, the same
  kind of final call (the forwarded body being the whole inbound body, trailing bytes
  included). The body of the claim, an empty envelope followed by \<open>garbage\<close>, decodes
  to the zero payload and is forwarded (the witness).
\<close>

theorem C9_trailing_bytes_ignored:
  assumes "Decode b = Inr cr" and "b \<noteq> []" and "last b = CHR ''}''"
    and "ReadAll (Request.Body r1) = (b, None)" and "ReadAll (Request.Body r2) = (b @ t, None)"
    and "Header r1 = Header r2"
  shows "Decode (b @ t) = Inr cr
     \<and> sent (ServeHTTP e p out w r2) = sent (ServeHTTP e p out w r1)
     \<and> built (ServeHTTP e p out w r2) = built (ServeHTTP e p out w r1)
     \<and> (call (ServeHTTP e p out w r1) = NotFound w r1 \<and> call (ServeHTTP e p out w r2) = NotFound w r2
        \<or> call (ServeHTTP e p out w r1) = next_ServeHTTP w (r1\<lparr>Request.Body := NoOpCloser (NewReader b)\<rparr>)
          \<and> call (ServeHTTP e p out w r2)
              = next_ServeHTTP w (r2\<lparr>Request.Body := NoOpCloser (NewReader (b @ t))\<rparr>))"
proof -
  have d: "Decode (b @ t) = Inr cr" using Decode_append [OF assms(1-3)] .
  then have "Decode b = Decode (b @ t)" using assms(1) by simp
  from ServeHTTP_same_payload [OF assms(4,5) this assms(6), of e p out w] d
  show ?thesis by simp
qed

theorem C9_witness:
  \<open>Decode ''{"deviceLinkOperation":{}}garbage'' = Inr CreateThingRequest_zero
   \<and> sent (ServeHTTP (example_env 200 None) example_plugin [] ()
        (example_request ''{"deviceLinkOperation":{}}garbage'' []))
     = sent (ServeHTTP (example_env 200 None) example_plugin [] ()
        (example_request ''{"deviceLinkOperation":{}}'' []))
   \<and> call (ServeHTTP (example_env 200 None) example_plugin [] ()
        (example_request ''{"deviceLinkOperation":{}}garbage'' []))
     = next_ServeHTTP () ((example_request ''{"deviceLinkOperation":{}}garbage'' [])
         \<lparr>Request.Body := NoOpCloser (NewReader ''{"deviceLinkOperation":{}}garbage'')\<rparr>)\<close>
proof -
  let ?b = \<open>''{"deviceLinkOperation":{}}''\<close>
  have app: "?b @ ''garbage'' = ?b @ ''garbage''" by simp
  have l: "?b \<noteq> []" "last ?b = CHR ''}''" by simp_all
  have r1: "ReadAll (Request.Body (example_request ?b [])) = (?b, None)"
    by (simp add: example_request_def NewReader_def)
  have r2: "ReadAll (Request.Body (example_request (?b @ ''garbage'') [])) = (?b @ ''garbage'', None)"
    by (simp add: example_request_def NewReader_def)
  have h: "Header (example_request ?b []) = Header (example_request (?b @ ''garbage'') [])"
    by (simp add: example_request_def)
  note th = C9_trailing_bytes_ignored [OF decode_empty_envelope l r1 r2 h,
      of "example_env 200 None" example_plugin "[]" "()"]
  have d: "Decode (?b @ ''garbage'') = Inr CreateThingRequest_zero" using th by blast
  have s: "sent (ServeHTTP (example_env 200 None) example_plugin [] () (example_request (?b @ ''garbage'') []))
     = sent (ServeHTTP (example_env 200 None) example_plugin [] () (example_request ?b []))"
    using th by blast
  have c: "call (ServeHTTP (example_env 200 None) example_plugin [] () (example_request (?b @ ''garbage'') []))
     = next_ServeHTTP () ((example_request (?b @ ''garbage'') [])
         \<lparr>Request.Body := NoOpCloser (NewReader (?b @ ''garbage''))\<rparr>)"
    using example_call [OF d, of 200 None "[]" "()" "[]"] by simp
  show ?thesis using conjI [OF d conjI [OF s c]] by simp
qed



end
